theory Spec2Isabelle
  imports Main "HOL-Library.Sublist" "HOL-Library.AList"
begin

section \<open>JavaScript strings and numbers\<close>

text \<open>
  Strings are lists of 8-bit characters. The engine's own literals and the words it looks
  for (\<open>true\<close>, \<open>false\<close>, option ids in the examples) are ASCII; on ASCII text the
  functions below compute what the JavaScript methods of the same name compute. Characters
  above 127 are left as they are by \<open>toLowerCase\<close> and are not white space for \<open>trim\<close>.
\<close>

definition isWhiteSpace :: "char \<Rightarrow> bool" where
  "isWhiteSpace c = (c \<in> set [CHR 0x09, CHR 0x0A, CHR 0x0B, CHR 0x0C, CHR 0x0D, CHR 0x20])"

text \<open>\<open>String.prototype.trim\<close>: white space is removed at both ends.\<close>

definition trim :: "string \<Rightarrow> string" where
  "trim s = rev (dropWhile isWhiteSpace (rev (dropWhile isWhiteSpace s)))"

definition toLowerCase_char :: "char \<Rightarrow> char" where
  "toLowerCase_char c =
     (case map_of (zip ''ABCDEFGHIJKLMNOPQRSTUVWXYZ'' ''abcdefghijklmnopqrstuvwxyz'') c of
        Some l \<Rightarrow> l
      | None \<Rightarrow> c)"

definition toLowerCase :: "string \<Rightarrow> string" where
  "toLowerCase s = map toLowerCase_char s"

text \<open>\<open>hay.includes(needle)\<close>: \<open>needle\<close> occurs in \<open>hay\<close> as a contiguous run.\<close>

fun str_includes :: "string \<Rightarrow> string \<Rightarrow> bool" where
  "str_includes [] needle = (needle = [])"
| "str_includes (c # cs) needle = (prefix needle (c # cs) \<or> str_includes cs needle)"

text \<open>\<open>s.replace(/['"]/g, "")\<close>: every single and double quote is deleted.\<close>

definition stripQuotes :: "string \<Rightarrow> string" where
  "stripQuotes s = filter (\<lambda>c. c \<noteq> CHR 0x27 \<and> c \<noteq> CHR 0x22) s"

text \<open>
  Template-literal conversion of a number that is an integer (step numbers, indices,
  positions): decimal digits, with a minus sign below zero.
\<close>

fun nat_toString :: "nat \<Rightarrow> string" where
  "nat_toString n =
     (if n < 10 then [''0123456789'' ! n]
      else nat_toString (n div 10) @ [''0123456789'' ! (n mod 10)])"

declare nat_toString.simps [simp del]

definition number_toString :: "int \<Rightarrow> string" where
  "number_toString i = (if i < 0 then ''-'' @ nat_toString (nat (- i)) else nat_toString (nat i))"

text \<open>\<open>Array.prototype.join\<close> on an array of strings.\<close>

fun join :: "string \<Rightarrow> string list \<Rightarrow> string" where
  "join sep [] = []"
| "join sep [x] = x"
| "join sep (x # y # ys) = x @ sep @ join sep (y # ys)"

text \<open>A string operand of \<open>||\<close> or \<open>!\<close>: absent and empty strings are falsy.\<close>

definition truthy_string :: "string option \<Rightarrow> bool" where
  "truthy_string s = (case s of None \<Rightarrow> False | Some t \<Rightarrow> t \<noteq> [])"

definition string_or :: "string option \<Rightarrow> string \<Rightarrow> string" where
  "string_or s d = (case s of None \<Rightarrow> d | Some t \<Rightarrow> if t = [] then d else t)"

text \<open>\<open>n || d\<close> on a number: absent and zero are falsy.\<close>

definition number_or :: "int option \<Rightarrow> int \<Rightarrow> int" where
  "number_or n d = (case n of None \<Rightarrow> d | Some k \<Rightarrow> if k = 0 then d else k)"

section \<open>JSON values and \<open>JSON.stringify\<close>\<close>

datatype json =
    JNull
  | JBool bool
  | JNum int
  | JStr string
  | JArr "json list"
  | JObj "(string \<times> json) list"

definition dq :: string where
  "dq = [CHR 0x22]"

definition bs :: string where
  "bs = [CHR 0x5C]"

definition nl :: string where
  "nl = [CHR 0x0A]"

text \<open>
  \<open>QuoteJSONString\<close> of ECMAScript: the quote and the backslash are escaped, control
  characters get their short escape or \<open>\u00XX\<close>.
\<close>

definition quoteJSON_char :: "char \<Rightarrow> string" where
  "quoteJSON_char c =
     (if c = CHR 0x08 then bs @ ''b''
      else if c = CHR 0x09 then bs @ ''t''
      else if c = CHR 0x0A then bs @ ''n''
      else if c = CHR 0x0C then bs @ ''f''
      else if c = CHR 0x0D then bs @ ''r''
      else if c = CHR 0x22 then bs @ dq
      else if c = CHR 0x5C then bs @ bs
      else if (of_char c :: nat) < 32
        then bs @ ''u00'' @ [''0123456789abcdef'' ! ((of_char c :: nat) div 16),
                              ''0123456789abcdef'' ! ((of_char c :: nat) mod 16)]
      else [c])"

definition quoteJSON :: "string \<Rightarrow> string" where
  "quoteJSON s = dq @ concat (map quoteJSON_char s) @ dq"

text \<open>
  \<open>SerializeJSONProperty\<close> with the gap \<open>gap\<close> at the current indentation \<open>ind\<close>. With an
  empty gap there are no line breaks and no space after the colon.
\<close>

fun JSON_serialize :: "string \<Rightarrow> string \<Rightarrow> json \<Rightarrow> string" where
  "JSON_serialize gap ind JNull = ''null''"
| "JSON_serialize gap ind (JBool b) = (if b then ''true'' else ''false'')"
| "JSON_serialize gap ind (JNum n) = number_toString n"
| "JSON_serialize gap ind (JStr s) = quoteJSON s"
| "JSON_serialize gap ind (JArr vs) =
     (if vs = [] then ''[]''
      else if gap = [] then ''['' @ join '','' (map (JSON_serialize gap (ind @ gap)) vs) @ '']''
      else ''['' @ nl @ (ind @ gap)
           @ join ('','' @ nl @ (ind @ gap)) (map (JSON_serialize gap (ind @ gap)) vs)
           @ nl @ ind @ '']'')"
| "JSON_serialize gap ind (JObj kvs) =
     (if kvs = [] then ''{}''
      else if gap = []
        then ''{'' @ join '',''
               (map (\<lambda>(k, v). quoteJSON k @ '':'' @ JSON_serialize gap (ind @ gap) v) kvs) @ ''}''
      else ''{'' @ nl @ (ind @ gap)
           @ join ('','' @ nl @ (ind @ gap))
               (map (\<lambda>(k, v). quoteJSON k @ '': '' @ JSON_serialize gap (ind @ gap) v) kvs)
           @ nl @ ind @ ''}'')"

text \<open>\<open>JSON.stringify(v)\<close> and \<open>JSON.stringify(v, null, 2)\<close>.\<close>

definition JSON_stringify :: "json \<Rightarrow> string" where
  "JSON_stringify v = JSON_serialize [] [] v"

definition JSON_stringify2 :: "json \<Rightarrow> string" where
  "JSON_stringify2 v = JSON_serialize ''  '' [] v"

text \<open>Truthiness of a JSON value used as a condition.\<close>

fun json_truthy :: "json \<Rightarrow> bool" where
  "json_truthy JNull = False"
| "json_truthy (JBool b) = b"
| "json_truthy (JNum n) = (n \<noteq> 0)"
| "json_truthy (JStr s) = (s \<noteq> [])"
| "json_truthy (JArr vs) = True"
| "json_truthy (JObj kvs) = True"

section \<open>The data model of \<open>types.ts\<close>\<close>

text \<open>
  Optional properties are \<open>option\<close>s. Numbers that index steps are \<open>int\<close>: the payload is
  JSON, so a branch list can hold negative and out-of-range indices. Fields read from the
  clock (\<open>timestamp\<close>, \<open>processedAt\<close>, \<open>duration\<close>) and the free-form \<open>data\<close> of a log entry
  are left out; \<open>finalizedAt\<close> is kept. Where two record types of the source share a field
  name, the fields carry a prefix naming their type.
\<close>

record Condition =
  evaluateAfterStep :: "int option"
  expression :: string
  ifTrue :: "int list option"
  ifFalse :: "int list option"

record ConditionalInstruction =
  ci_instruction :: string
  ci_condition :: "Condition option"

record EndpointInstruction =
  ei_endpointUrl :: string
  ei_apiUrl :: string
  ei_method :: "string option"
  ei_headers :: "(string \<times> string) list option"
  ei_body :: "json option"
  ei_retries :: "int option"
  ei_retryDelay :: "int option"
  ei_timeout :: "int option"
  ei_description :: "string option"
  ei_condition :: "Condition option"

record CompletionCheck =
  cc_mode :: string
  cc_expression :: "string option"

record ThreadInstruction =
  ti_collectFromSteps :: "int list"
  ti_outputFormat :: "string option"
  ti_description :: "string option"
  ti_completionCheck :: "CompletionCheck option"
  ti_condition :: "Condition option"

record EndpointTarget =
  et_endpointUrl :: string
  et_apiUrl :: string
  et_method :: "string option"
  et_headers :: "(string \<times> string) list option"
  et_body :: "json option"

text \<open>An entry of a router's \<open>options\<close> and of an agent's \<open>availableTools\<close>.\<close>

record ToolOption =
  opt_id :: string
  opt_name :: string
  opt_description :: string
  opt_endpoint :: EndpointTarget

record RouterInstruction =
  ri_description :: string
  ri_evaluationPrompt :: string
  ri_options :: "ToolOption list"
  ri_defaultOption :: "string option"
  ri_retries :: "int option"
  ri_retryDelay :: "int option"
  ri_timeout :: "int option"
  ri_condition :: "Condition option"

record AgentInstruction =
  ai_description :: string
  ai_decisionPrompt :: string
  ai_availableTools :: "ToolOption list"
  ai_fallbackBehavior :: string
  ai_llmFallbackPrompt :: "string option"
  ai_retries :: "int option"
  ai_retryDelay :: "int option"
  ai_timeout :: "int option"
  ai_condition :: "Condition option"

text \<open>
  The union \<open>NormalizedInstruction\<close>. An object without a \<open>type\<close> property is a
  \<open>ConditionalInstruction\<close>; the others carry \<open>type\<close> \<open>endpoint\<close>, \<open>thread\<close>, \<open>router\<close>
  or \<open>agent\<close>.
\<close>

datatype NormalizedInstruction =
    Conditional ConditionalInstruction
  | Endpoint EndpointInstruction
  | Thread ThreadInstruction
  | Router RouterInstruction
  | Agent AgentInstruction

text \<open>\<open>instructionConfig.condition\<close>, the same property on every variant.\<close>

fun condition_of :: "NormalizedInstruction \<Rightarrow> Condition option" where
  "condition_of (Conditional i) = ci_condition i"
| "condition_of (Endpoint i) = ei_condition i"
| "condition_of (Thread i) = ti_condition i"
| "condition_of (Router i) = ri_condition i"
| "condition_of (Agent i) = ai_condition i"

datatype BranchTaken = BranchTrue | BranchFalse | Sequential

text \<open>
  \<open>stepIndex\<close> is not a field of the source's \<open>StepResult\<close>: it records the instruction
  index the result was produced for, so that the execution trace can be stated.
\<close>

record StepResult =
  stepNumber :: int
  instruction :: string
  result :: string
  conditionEvaluated :: bool
  conditionResult :: "bool option"
  branchTaken :: BranchTaken
  stepIndex :: int

datatype LogLevel = Info | Warn | Err | Debug

record LogEntry =
  log_level :: LogLevel
  log_message :: string
  log_stepNumber :: "int option"

record ErrorEntry =
  err_stepNumber :: int
  err_stepIndex :: int
  err_error :: string
  err_errorType :: string
  err_context :: "string option"

record WorkflowResult =
  originalContext :: string
  steps :: "StepResult list"
  finalizedAt :: string
  errors :: "ErrorEntry list"
  logs :: "LogEntry list"

datatype provider = OpenAI | Anthropic

section \<open>The world outside the engine\<close>

text \<open>
  A thrown \<open>Error\<close> is a value. Every call that leaves the worker (the language-model
  providers, the endpoint proxy, a direct fetch) is answered by the world. The world sees
  how many such calls the run has made before, so its answers form an arbitrary sequence:
  two calls with the same arguments may be answered differently.
\<close>

datatype exn = Error string

record EndpointCall =
  ec_endpointUrl :: string
  ec_apiUrl :: string
  ec_method :: string
  ec_headers :: "(string \<times> string) list option"
  ec_body :: "json option"
  ec_retries :: int
  ec_retryDelay :: int
  ec_timeout :: int

record MockFetch =
  mf_apiUrl :: string
  mf_method :: string
  mf_headers :: "(string \<times> string) list"
  mf_body :: "string option"
  mf_timeout :: int

text \<open>
  \<open>w_callLLM\<close> is \<open>callLLM\<close> of \<open>providers/index.ts\<close>; \<open>w_callEndpoint\<close> is the outcome
  of \<open>callEndpoint\<close> of \<open>steps/endpoint-step.ts\<close> (the proxy's reply, already checked and
  turned into text); \<open>w_fetchMock\<close> is the outcome of a direct fetch of a mock endpoint,
  as the text \<open>JSON.stringify(responseData)\<close>; \<open>w_JSON_parse\<close> is \<open>JSON.parse\<close>;
  \<open>w_now\<close> is the clock.
\<close>

record world =
  w_callLLM :: "nat \<Rightarrow> provider \<Rightarrow> string \<Rightarrow> string \<Rightarrow> string \<Rightarrow> string \<Rightarrow> exn + string"
  w_callEndpoint :: "nat \<Rightarrow> EndpointCall \<Rightarrow> exn + string"
  w_fetchMock :: "nat \<Rightarrow> MockFetch \<Rightarrow> exn + string"
  w_JSON_parse :: "string \<Rightarrow> exn + json"
  w_now :: "nat \<Rightarrow> string"

text \<open>
  What a run mutates besides its queue: the result under construction, the number of
  outside calls made so far, and the console.
\<close>

record runtime =
  rt_currentResult :: WorkflowResult
  rt_ticks :: nat
  rt_console :: "string list"

definition callLLM ::
  "world \<Rightarrow> provider \<Rightarrow> string \<Rightarrow> string \<Rightarrow> string \<Rightarrow> string \<Rightarrow> runtime \<Rightarrow> (exn + string) \<times> runtime" where
  "callLLM w prov apiKey model systemPrompt userPrompt rt =
     (w_callLLM w (rt_ticks rt) prov apiKey model systemPrompt userPrompt,
      rt\<lparr>rt_ticks := Suc (rt_ticks rt)\<rparr>)"

definition console_warn :: "string \<Rightarrow> runtime \<Rightarrow> runtime" where
  "console_warn msg rt = rt\<lparr>rt_console := rt_console rt @ [msg]\<rparr>"

section \<open>The condition evaluator (\<open>utils/condition.ts\<close>)\<close>

definition condition_systemPrompt :: string where
  "condition_systemPrompt =
     ''You are a logical evaluator. Evaluate the given condition and respond with ONLY 'true' or 'false' (lowercase, no punctuation).''"

definition condition_userPrompt :: "string \<Rightarrow> string \<Rightarrow> int \<Rightarrow> string" where
  "condition_userPrompt conditionExpression stepResult stepNo =
     ''Evaluate this condition: '' @ dq @ conditionExpression @ dq @ nl @ nl
     @ ''Step '' @ number_toString stepNo @ '' result:'' @ nl
     @ stepResult @ nl @ nl
     @ ''Respond with only 'true' or 'false'.''"

text \<open>The warning sign that opens the console message, as its UTF-8 bytes.\<close>

definition warning_sign :: string where
  "warning_sign = [CHR 0xE2, CHR 0x9A, CHR 0xA0, CHR 0xEF, CHR 0xB8, CHR 0x8F]"

definition unclear_warning :: "string \<Rightarrow> string" where
  "unclear_warning response =
     warning_sign @ '' Unclear condition evaluation result: '' @ dq @ response @ dq
     @ '', defaulting to false''"

definition evaluateCondition ::
  "world \<Rightarrow> provider \<Rightarrow> string \<Rightarrow> string \<Rightarrow> string \<Rightarrow> string \<Rightarrow> int \<Rightarrow> runtime
     \<Rightarrow> (exn + bool) \<times> runtime" where
  "evaluateCondition w prov apiKey model conditionExpression stepResult stepNo rt =
     (case callLLM w prov apiKey model condition_systemPrompt
             (condition_userPrompt conditionExpression stepResult stepNo) rt of
        (Inl e, rt1) \<Rightarrow> (Inl e, rt1)
      | (Inr response, rt1) \<Rightarrow>
          (let normalized = toLowerCase (trim response) in
           if str_includes normalized ''true'' \<and> \<not> str_includes normalized ''false''
             then (Inr True, rt1)
           else if str_includes normalized ''false''
             then (Inr False, rt1)
           else (Inr False, console_warn (unclear_warning response) rt1)))"

section \<open>Step handlers (\<open>steps/*.ts\<close>)\<close>

text \<open>
  The members \<open>currentResult\<close>, \<open>addLog\<close> and \<open>addError\<close> of the source's \<open>StepContext\<close>
  are the runtime the handler is given and returns: \<open>addLog\<close> and \<open>addError\<close> append to
  the logs and errors of the result under construction.
\<close>

record StepContext =
  ctx_provider :: provider
  ctx_apiKey :: string
  ctx_model :: string
  ctx_previousResult :: string
  ctx_isFirstStep :: bool
  ctx_stepNumber :: int
  ctx_stepIndex :: int

definition addLog :: "LogLevel \<Rightarrow> string \<Rightarrow> int option \<Rightarrow> runtime \<Rightarrow> runtime" where
  "addLog level message stepNo rt =
     rt\<lparr>rt_currentResult := (rt_currentResult rt)
          \<lparr>logs := logs (rt_currentResult rt)
                     @ [\<lparr>log_level = level, log_message = message, log_stepNumber = stepNo\<rparr>]\<rparr>\<rparr>"

definition addError :: "int \<Rightarrow> int \<Rightarrow> string \<Rightarrow> string \<Rightarrow> string option \<Rightarrow> runtime \<Rightarrow> runtime" where
  "addError stepNo stepIdx err errType errContext rt =
     rt\<lparr>rt_currentResult := (rt_currentResult rt)
          \<lparr>errors := errors (rt_currentResult rt)
                       @ [\<lparr>err_stepNumber = stepNo, err_stepIndex = stepIdx, err_error = err,
                           err_errorType = errType, err_context = errContext\<rparr>]\<rparr>\<rparr>"

definition callEndpoint :: "world \<Rightarrow> EndpointCall \<Rightarrow> runtime \<Rightarrow> (exn + string) \<times> runtime" where
  "callEndpoint w call rt =
     (w_callEndpoint w (rt_ticks rt) call, rt\<lparr>rt_ticks := Suc (rt_ticks rt)\<rparr>)"

definition fetchMock :: "world \<Rightarrow> MockFetch \<Rightarrow> runtime \<Rightarrow> (exn + string) \<times> runtime" where
  "fetchMock w req rt =
     (w_fetchMock w (rt_ticks rt) req, rt\<lparr>rt_ticks := Suc (rt_ticks rt)\<rparr>)"

definition message_of :: "exn \<Rightarrow> string" where
  "message_of e = (case e of Error m \<Rightarrow> m)"

subsection \<open>\<open>executeLLMStep\<close>\<close>

definition executeLLMStep ::
  "world \<Rightarrow> ConditionalInstruction \<Rightarrow> StepContext \<Rightarrow> runtime
     \<Rightarrow> (exn + string \<times> string) \<times> runtime" where
  "executeLLMStep w instr ctx rt =
     (let systemPrompt =
            (if ctx_isFirstStep ctx
             then ''You are a helpful assistant that processes and analyzes content.''
             else ''You are a helpful assistant that processes and refines content based on previous results.'');
          userPrompt =
            (if ctx_isFirstStep ctx
             then ci_instruction instr @ nl @ nl @ ''Context:'' @ nl @ ctx_previousResult ctx
             else ci_instruction instr @ nl @ nl @ ''Previous Result:'' @ nl
                  @ ctx_previousResult ctx)
      in case callLLM w (ctx_provider ctx) (ctx_apiKey ctx) (ctx_model ctx)
                systemPrompt userPrompt rt of
           (Inl e, rt1) \<Rightarrow> (Inl e, rt1)
         | (Inr res, rt1) \<Rightarrow> (Inr (ci_instruction instr, res), rt1))"

subsection \<open>\<open>executeEndpointStep\<close>\<close>

definition executeEndpointStep ::
  "world \<Rightarrow> EndpointInstruction \<Rightarrow> StepContext \<Rightarrow> runtime
     \<Rightarrow> (exn + string \<times> string) \<times> runtime" where
  "executeEndpointStep w instr ctx rt =
     (let desc = string_or (ei_description instr) (''Call '' @ ei_apiUrl instr);
          rt1 = addLog Info (''Endpoint step calling '' @ ei_apiUrl instr)
                  (Some (ctx_stepNumber ctx)) rt
      in case callEndpoint w
                \<lparr>ec_endpointUrl = ei_endpointUrl instr,
                 ec_apiUrl = ei_apiUrl instr,
                 ec_method = string_or (ei_method instr) ''GET'',
                 ec_headers = ei_headers instr,
                 ec_body = ei_body instr,
                 ec_retries = number_or (ei_retries instr) 3,
                 ec_retryDelay = number_or (ei_retryDelay instr) 1000,
                 ec_timeout = number_or (ei_timeout instr) 30000\<rparr> rt1 of
           (Inr res, rt2) \<Rightarrow>
             (Inr (desc, res),
              addLog Info ''Endpoint call successful'' (Some (ctx_stepNumber ctx)) rt2)
         | (Inl e, rt2) \<Rightarrow>
             (Inl e,
              addError (ctx_stepNumber ctx) (ctx_stepIndex ctx) (message_of e) ''endpoint''
                (Some (''Endpoint '' @ ei_apiUrl instr @ '' failed''))
                (addLog Err (''Endpoint call failed: '' @ message_of e)
                   (Some (ctx_stepNumber ctx)) rt2)))"

subsection \<open>\<open>executeThreadStep\<close>\<close>

record Collected =
  col_stepNumber :: int
  col_instruction :: string
  col_result :: string

text \<open>
  The collecting loop: each requested step number is looked up among the results produced
  so far; a found one is appended to \<open>collectedResults\<close>, the others to \<open>missingSteps\<close>.
\<close>

fun collectResults :: "StepResult list \<Rightarrow> int list \<Rightarrow> Collected list \<times> int list" where
  "collectResults produced [] = ([], [])"
| "collectResults produced (stepNum # rest) =
     (case collectResults produced rest of
        (collectedResults, missingSteps) \<Rightarrow>
          (case find (\<lambda>s. stepNumber s = stepNum) produced of
             Some stepData \<Rightarrow>
               (\<lparr>col_stepNumber = stepNumber stepData, col_instruction = instruction stepData,
                 col_result = result stepData\<rparr> # collectedResults, missingSteps)
           | None \<Rightarrow> (collectedResults, stepNum # missingSteps)))"

definition thread_incomplete_message :: "int list \<Rightarrow> string" where
  "thread_incomplete_message missingSteps =
     ''Thread incomplete: missing results from steps ''
     @ join '', '' (map number_toString missingSteps) @ ''. ''
     @ ''Ensure these steps execute before this thread step.''"

definition formatCollected :: "ThreadInstruction \<Rightarrow> Collected list \<Rightarrow> string" where
  "formatCollected instr collectedResults =
     (let outputFormat = string_or (ti_outputFormat instr) ''json'' in
      if outputFormat = ''json'' then
        JSON_stringify2
          (JObj [(''collectedSteps'', JArr (map JNum (ti_collectFromSteps instr))),
                 (''results'',
                  JArr (map (\<lambda>r. JObj [(''step'', JNum (col_stepNumber r)),
                                         (''instruction'', JStr (col_instruction r)),
                                         (''result'', JStr (col_result r))])
                          collectedResults))])
      else if outputFormat = ''markdown'' then
        join (nl @ nl @ ''---'' @ nl @ nl)
          (map (\<lambda>r. ''## Step '' @ number_toString (col_stepNumber r) @ nl
                     @ ''**Instruction:** '' @ col_instruction r @ nl @ nl
                     @ ''**Result:**'' @ nl @ col_result r)
             collectedResults)
      else if outputFormat = ''numbered'' then
        join (nl @ nl)
          (map (\<lambda>(idx, r). number_toString (int idx + 1) @ ''. [Step ''
                     @ number_toString (col_stepNumber r) @ ''] '' @ col_result r)
             (enumerate 0 collectedResults))
      else
        JSON_stringify
          (JArr (map (\<lambda>r. JObj [(''stepNumber'', JNum (col_stepNumber r)),
                                 (''instruction'', JStr (col_instruction r)),
                                 (''result'', JStr (col_result r))])
                  collectedResults)))"

definition executeThreadStep ::
  "world \<Rightarrow> ThreadInstruction \<Rightarrow> StepContext \<Rightarrow> runtime
     \<Rightarrow> (exn + string \<times> string) \<times> runtime" where
  "executeThreadStep w instr ctx rt =
     (let desc = string_or (ti_description instr)
                   (''Collect results from steps: ''
                    @ join '', '' (map number_toString (ti_collectFromSteps instr)));
          (collectedResults, missingSteps) =
             collectResults (steps (rt_currentResult rt)) (ti_collectFromSteps instr);
          completionCheck =
             (case ti_completionCheck instr of
                Some c \<Rightarrow> c
              | None \<Rightarrow> \<lparr>cc_mode = ''deterministic'', cc_expression = None\<rparr>);
          (isComplete, rt1) =
             (if cc_mode completionCheck = ''deterministic''
                then (Inr (missingSteps = []), rt)
              else if cc_mode completionCheck = ''llm''
                      \<and> truthy_string (cc_expression completionCheck)
                then evaluateCondition w (ctx_provider ctx) (ctx_apiKey ctx) (ctx_model ctx)
                       (string_or (cc_expression completionCheck) [])
                       (join nl
                          (map (\<lambda>r. ''Step '' @ number_toString (col_stepNumber r) @ '': ''
                                     @ take 200 (col_result r) @ ''...'')
                             collectedResults))
                       (ctx_stepNumber ctx) rt
              else (Inr False, rt))
      in case isComplete of
           Inl e \<Rightarrow> (Inl e, rt1)
         | Inr complete \<Rightarrow>
             if \<not> complete \<and> missingSteps \<noteq> []
               then (Inl (Error (thread_incomplete_message missingSteps)), rt1)
             else (Inr (desc, formatCollected instr collectedResults), rt1))"

subsection \<open>Calling the endpoint of a chosen option or tool\<close>

text \<open>
  \<open>{"Content-Type": "application/json", ...headers}\<close>: a later key replaces an earlier
  one of the same name.
\<close>

definition spreadHeaders :: "(string \<times> string) list option \<Rightarrow> (string \<times> string) list" where
  "spreadHeaders hs =
     foldl (\<lambda>acc (k, v). AList.update k v acc) [(''Content-Type'', ''application/json'')]
       (case hs of None \<Rightarrow> [] | Some h \<Rightarrow> h)"

text \<open>
  The body of the \<open>try\<close> block that the router and the agent share: a target whose
  \<open>apiUrl\<close> contains \<open>/mock/\<close> is fetched directly, any other goes through
  \<open>callEndpoint\<close>.
\<close>

definition invokeTarget ::
  "world \<Rightarrow> EndpointTarget \<Rightarrow> int option \<Rightarrow> int option \<Rightarrow> int option \<Rightarrow> int \<Rightarrow> runtime
     \<Rightarrow> (exn + string) \<times> runtime" where
  "invokeTarget w target retries retryDelay timeout stepNo rt =
     (let apiUrl = et_apiUrl target;
          endpointUrl = et_endpointUrl target;
          method = string_or (et_method target) ''GET''
      in if str_includes apiUrl ''/mock/''
         then fetchMock w
                \<lparr>mf_apiUrl = apiUrl,
                 mf_method = method,
                 mf_headers = spreadHeaders (et_headers target),
                 mf_body =
                   (case et_body target of
                      None \<Rightarrow> None
                    | Some b \<Rightarrow>
                        if json_truthy b \<and> method \<in> set [''POST'', ''PUT'', ''PATCH'']
                        then Some (case b of JStr t \<Rightarrow> t | _ \<Rightarrow> JSON_stringify b)
                        else None),
                 mf_timeout = number_or timeout 30000\<rparr>
                (addLog Info (''Calling mock endpoint directly: '' @ apiUrl) (Some stepNo) rt)
         else callEndpoint w
                \<lparr>ec_endpointUrl = endpointUrl,
                 ec_apiUrl = apiUrl,
                 ec_method = method,
                 ec_headers = et_headers target,
                 ec_body = et_body target,
                 ec_retries = number_or retries 3,
                 ec_retryDelay = number_or retryDelay 1000,
                 ec_timeout = number_or timeout 30000\<rparr> rt)"

text \<open>\<open>options[0]\<close>: the first element, or \<open>undefined\<close> on an empty array.\<close>

definition first_option :: "ToolOption list \<Rightarrow> ToolOption option" where
  "first_option opts = (case opts of [] \<Rightarrow> None | opt # _ \<Rightarrow> Some opt)"

text \<open>\<open>${idx + 1}. ${opt.id}: ${opt.description}\<close> for every option, in order.\<close>

definition optionLines :: "ToolOption list \<Rightarrow> string list" where
  "optionLines opts =
     map (\<lambda>(idx, opt). number_toString (int idx + 1) @ ''. '' @ opt_id opt @ '': ''
                          @ opt_description opt)
       (enumerate 0 opts)"

subsection \<open>\<open>executeRouterStep\<close>\<close>

definition router_systemPrompt :: string where
  "router_systemPrompt =
     ''You are a decision-making assistant. Your job is to analyze context and select the most appropriate option. Respond with ONLY the option ID, nothing else.''"

definition router_selectionPrompt :: "RouterInstruction \<Rightarrow> StepContext \<Rightarrow> string" where
  "router_selectionPrompt instr ctx =
     ''You are evaluating which data source or API to query based on the context.'' @ nl @ nl
     @ ''CONTEXT/PREVIOUS RESULT:'' @ nl @ ctx_previousResult ctx @ nl @ nl
     @ ''AVAILABLE OPTIONS:'' @ nl @ join nl (optionLines (ri_options instr)) @ nl @ nl
     @ ''TASK: '' @ ri_evaluationPrompt instr @ nl @ nl
     @ ''IMPORTANT: Respond with ONLY the option ID (e.g., '' @ dq
     @ string_or (map_option opt_id (first_option (ri_options instr))) ''option1''
     @ dq @ ''). '' @ nl
     @ ''Do not include any other text, explanation, or punctuation. Just the ID.''"

text \<open>
  Lines 80 to 119 of \<open>router-step.ts\<close>: the Oracle's answer is cleaned, then an option is
  looked for by exact id, by partial match, by the configured default, and at last the
  first option is taken. The result is \<open>None\<close> where \<open>selectedOption\<close> is still
  \<open>undefined\<close> afterwards.
\<close>

definition resolveRouterOption ::
  "RouterInstruction \<Rightarrow> string \<Rightarrow> int \<Rightarrow> runtime \<Rightarrow> ToolOption option \<times> runtime" where
  "resolveRouterOption instr selectedOptionId stepNo rt =
     (let cleanedSelection = stripQuotes (toLowerCase (trim selectedOptionId)) in
      case find (\<lambda>opt. toLowerCase (opt_id opt) = cleanedSelection) (ri_options instr) of
        Some opt \<Rightarrow> (Some opt, rt)
      | None \<Rightarrow>
          (let rt1 = addLog Warn (''Exact match not found for '' @ dq @ cleanedSelection @ dq
                                   @ '', trying partial match'') (Some stepNo) rt
           in case find (\<lambda>opt. str_includes cleanedSelection (toLowerCase (opt_id opt))
                               \<or> str_includes (toLowerCase (opt_id opt)) cleanedSelection)
                     (ri_options instr) of
                Some opt \<Rightarrow> (Some opt, rt1)
              | None \<Rightarrow>
                  (let rt2 = addLog Warn (''No match found, falling back to default option: ''
                                          @ string_or (ri_defaultOption instr) ''first option'')
                               (Some stepNo) rt1
                   in case (case ri_defaultOption instr of
                              None \<Rightarrow> None
                            | Some d \<Rightarrow>
                                if d = [] then None
                                else find (\<lambda>opt. opt_id opt = d) (ri_options instr)) of
                        Some opt \<Rightarrow> (Some opt, rt2)
                      | None \<Rightarrow> (first_option (ri_options instr), rt2))))"

definition executeRouterStep ::
  "world \<Rightarrow> RouterInstruction \<Rightarrow> StepContext \<Rightarrow> runtime
     \<Rightarrow> (exn + string \<times> string) \<times> runtime" where
  "executeRouterStep w instr ctx rt =
     (let desc = string_or (Some (ri_description instr))
                   (''Router: '' @ ri_evaluationPrompt instr);
          stepNo = ctx_stepNumber ctx;
          rt1 = addLog Info (''Router step started with ''
                             @ number_toString (int (length (ri_options instr))) @ '' options'')
                  (Some stepNo) rt;
          rt2 = addLog Debug ''Sending selection prompt to LLM'' (Some stepNo) rt1
      in case callLLM w (ctx_provider ctx) (ctx_apiKey ctx) (ctx_model ctx)
                router_systemPrompt (router_selectionPrompt instr ctx) rt2 of
           (Inl e, rt3) \<Rightarrow>
             (Inl (Error (''Router LLM selection failed: '' @ message_of e)),
              addError stepNo (ctx_stepIndex ctx) (message_of e) ''router-llm''
                (Some ''LLM failed to select option'')
                (addLog Err (''LLM selection failed: '' @ message_of e) (Some stepNo) rt3))
         | (Inr selectedOptionId, rt3) \<Rightarrow>
             (case resolveRouterOption instr selectedOptionId stepNo
                     (addLog Info (''LLM returned selection: '' @ dq @ trim selectedOptionId @ dq)
                        (Some stepNo) rt3) of
                (None, rt4) \<Rightarrow>
                  (let errMsg = ''Router could not select an option. LLM returned: '' @ dq
                                @ selectedOptionId @ dq
                   in (Inl (Error errMsg),
                       addError stepNo (ctx_stepIndex ctx) errMsg ''router-selection''
                         (Some ''No valid option could be selected'')
                         (addLog Err errMsg (Some stepNo) rt4)))
              | (Some selectedOption, rt4) \<Rightarrow>
                  (let rt5 = addLog Info (''Selected option: '' @ opt_id selectedOption @ '' (''
                                          @ opt_name selectedOption @ '')'') (Some stepNo) rt4
                   in case invokeTarget w (opt_endpoint selectedOption) (ri_retries instr)
                             (ri_retryDelay instr) (ri_timeout instr) stepNo rt5 of
                        (Inl e, rt6) \<Rightarrow>
                          (Inl (Error (''Router endpoint call failed: '' @ message_of e)),
                           addError stepNo (ctx_stepIndex ctx) (message_of e) ''router-endpoint''
                             (Some (''Endpoint '' @ et_apiUrl (opt_endpoint selectedOption)
                                    @ '' failed''))
                             (addLog Err (''Endpoint call failed: '' @ message_of e)
                                (Some stepNo) rt6))
                      | (Inr endpointResult, rt6) \<Rightarrow>
                          (let rt7 = addLog Info (''Endpoint call successful for ''
                                                  @ opt_id selectedOption) (Some stepNo) rt6
                           in case w_JSON_parse w endpointResult of
                                Inl e \<Rightarrow> (Inl e, rt7)
                              | Inr parsed \<Rightarrow>
                                  (Inr (desc,
                                     JSON_stringify2
                                       (JObj [(''routerDecision'',
                                               JObj [(''selectedOption'', JStr (opt_id selectedOption)),
                                                     (''selectedName'', JStr (opt_name selectedOption)),
                                                     (''llmResponse'', JStr (trim selectedOptionId)),
                                                     (''endpoint'',
                                                      JStr (et_apiUrl (opt_endpoint selectedOption)))]),
                                              (''data'', parsed)])),
                                   rt7)))))"

subsection \<open>\<open>executeAgentStep\<close>\<close>

definition NO_TOOL_ID :: string where
  "NO_TOOL_ID = ''none''"

definition agent_systemPrompt :: string where
  "agent_systemPrompt =
     ''You are a decision-making assistant. Analyze the context and decide if you need external data or can answer with your knowledge. Respond with ONLY the option ID, nothing else.''"

definition agent_toolsText :: "AgentInstruction \<Rightarrow> string" where
  "agent_toolsText instr =
     join nl
       ((''0. '' @ NO_TOOL_ID
         @ '': I don't need external data - I can answer with my existing knowledge'')
        # optionLines (ai_availableTools instr))"

definition agent_decisionPrompt :: "AgentInstruction \<Rightarrow> StepContext \<Rightarrow> string" where
  "agent_decisionPrompt instr ctx =
     ''You are an intelligent assistant deciding whether you need to fetch external data to complete a task.''
     @ nl @ nl
     @ ''CONTEXT/PREVIOUS RESULT:'' @ nl @ ctx_previousResult ctx @ nl @ nl
     @ ''TASK: '' @ ai_decisionPrompt instr @ nl @ nl
     @ ''AVAILABLE OPTIONS:'' @ nl @ agent_toolsText instr @ nl @ nl
     @ ''INSTRUCTIONS:'' @ nl
     @ ''- If you can answer the question or complete the task with your existing knowledge, respond with ''
     @ dq @ NO_TOOL_ID @ dq @ nl
     @ ''- If you need real-time or external data that you don't have, respond with the appropriate tool ID''
     @ nl
     @ ''- Consider: Do I need current/live data? Is this about recent events? Do I need to look something up?''
     @ nl @ nl
     @ ''IMPORTANT: Respond with ONLY the option ID (e.g., '' @ dq @ NO_TOOL_ID @ dq @ '' or '' @ dq
     @ string_or (map_option opt_id (first_option (ai_availableTools instr))) ''tool1''
     @ dq @ ''). '' @ nl
     @ ''Do not include any other text, explanation, or punctuation. Just the ID.''"

text \<open>The test \<open>needsNoTool\<close> on the cleaned decision.\<close>

definition needsNoTool :: "string \<Rightarrow> bool" where
  "needsNoTool cleanedDecision =
     (cleanedDecision = NO_TOOL_ID
      \<or> cleanedDecision = ''no''
      \<or> cleanedDecision = ''none''
      \<or> str_includes cleanedDecision ''don't need''
      \<or> str_includes cleanedDecision ''no tool''
      \<or> str_includes cleanedDecision ''existing knowledge'')"

text \<open>
  The tool lookup: exact id, then partial match, then the first available tool; \<open>None\<close>
  where \<open>selectedTool\<close> is still \<open>undefined\<close> afterwards.
\<close>

definition resolveAgentTool ::
  "AgentInstruction \<Rightarrow> string \<Rightarrow> int \<Rightarrow> runtime \<Rightarrow> ToolOption option \<times> runtime" where
  "resolveAgentTool instr cleanedDecision stepNo rt =
     (case find (\<lambda>tool. toLowerCase (opt_id tool) = cleanedDecision) (ai_availableTools instr) of
        Some tool \<Rightarrow> (Some tool, rt)
      | None \<Rightarrow>
          (let rt1 = addLog Warn (''Exact match not found for '' @ dq @ cleanedDecision @ dq
                                   @ '', trying partial match'') (Some stepNo) rt
           in case find (\<lambda>tool. str_includes cleanedDecision (toLowerCase (opt_id tool))
                                \<or> str_includes (toLowerCase (opt_id tool)) cleanedDecision)
                     (ai_availableTools instr) of
                Some tool \<Rightarrow> (Some tool, rt1)
              | None \<Rightarrow>
                  (case ai_availableTools instr of
                     [] \<Rightarrow> (None, rt1)
                   | tool # _ \<Rightarrow>
                       (Some tool,
                        addLog Warn (''No matching tool found, using first available tool: ''
                                     @ opt_id tool) (Some stepNo) rt1))))"

definition executeAgentStep ::
  "world \<Rightarrow> AgentInstruction \<Rightarrow> StepContext \<Rightarrow> runtime
     \<Rightarrow> (exn + string \<times> string) \<times> runtime" where
  "executeAgentStep w instr ctx rt =
     (let desc = string_or (Some (ai_description instr)) (''Agent: '' @ ai_decisionPrompt instr);
          stepNo = ctx_stepNumber ctx;
          rt1 = addLog Info (''Agent step started with ''
                             @ number_toString (int (length (ai_availableTools instr)))
                             @ '' available tools'') (Some stepNo) rt;
          rt2 = addLog Debug ''Sending decision prompt to LLM'' (Some stepNo) rt1
      in case callLLM w (ctx_provider ctx) (ctx_apiKey ctx) (ctx_model ctx)
                agent_systemPrompt (agent_decisionPrompt instr ctx) rt2 of
           (Inl e, rt3) \<Rightarrow>
             (Inl (Error (''Agent LLM decision failed: '' @ message_of e)),
              addError stepNo (ctx_stepIndex ctx) (message_of e) ''agent-llm''
                (Some ''LLM failed to make decision'')
                (addLog Err (''LLM decision failed: '' @ message_of e) (Some stepNo) rt3))
         | (Inr decisionResponse, rt3) \<Rightarrow>
             (let rt4 = addLog Info (''LLM decision: '' @ dq @ trim decisionResponse @ dq)
                          (Some stepNo) rt3;
                  cleanedDecision = stripQuotes (toLowerCase (trim decisionResponse))
              in if needsNoTool cleanedDecision then
                   (let rt5 = addLog Info
                                (''Agent decided no external data needed, using fallback: ''
                                 @ ai_fallbackBehavior instr) (Some stepNo) rt4
                    in if ai_fallbackBehavior instr = ''skip'' then
                         (Inr (desc,
                            JSON_stringify2
                              (JObj [(''agentDecision'',
                                      JObj [(''selectedTool'', JNull),
                                            (''reason'', JStr ''No external data needed''),
                                            (''llmResponse'', JStr (trim decisionResponse))]),
                                     (''data'', JStr (ctx_previousResult ctx))])),
                          rt5)
                       else
                         (let fallbackPrompt =
                                string_or (ai_llmFallbackPrompt instr)
                                  ''Based on the context provided, please provide a helpful response.'';
                              rt6 = addLog Info ''Using LLM fallback to generate response''
                                      (Some stepNo) rt5
                          in case callLLM w (ctx_provider ctx) (ctx_apiKey ctx) (ctx_model ctx)
                                    ''You are a helpful assistant. Answer based on your knowledge.''
                                    (fallbackPrompt @ nl @ nl @ ''Context:'' @ nl
                                     @ ctx_previousResult ctx) rt6 of
                               (Inl e, rt7) \<Rightarrow>
                                 (Inl (Error (''Agent LLM fallback failed: '' @ message_of e)),
                                  addError stepNo (ctx_stepIndex ctx) (message_of e)
                                    ''agent-llm-fallback'' (Some ''LLM fallback response failed'')
                                    (addLog Err (''LLM fallback failed: '' @ message_of e)
                                       (Some stepNo) rt7))
                             | (Inr llmResponse, rt7) \<Rightarrow>
                                 (Inr (desc,
                                    JSON_stringify2
                                      (JObj [(''agentDecision'',
                                              JObj [(''selectedTool'', JNull),
                                                    (''reason'',
                                                     JStr ''No external data needed - answered with LLM''),
                                                    (''llmResponse'', JStr (trim decisionResponse))]),
                                             (''data'', JStr llmResponse)])),
                                  rt7)))
                 else
                   (case resolveAgentTool instr cleanedDecision stepNo rt4 of
                      (None, rt5) \<Rightarrow>
                        (let errMsg = ''Agent has no available tools but LLM requested external data. LLM returned: ''
                                      @ dq @ decisionResponse @ dq
                         in (Inl (Error errMsg),
                             addError stepNo (ctx_stepIndex ctx) errMsg ''agent-no-tools''
                               (Some ''No tools available for agent'')
                               (addLog Err errMsg (Some stepNo) rt5)))
                    | (Some selectedTool, rt5) \<Rightarrow>
                        (let rt6 = addLog Info (''Selected tool: '' @ opt_id selectedTool @ '' (''
                                                @ opt_name selectedTool @ '')'') (Some stepNo) rt5
                         in case invokeTarget w (opt_endpoint selectedTool) (ai_retries instr)
                                   (ai_retryDelay instr) (ai_timeout instr) stepNo rt6 of
                              (Inl e, rt7) \<Rightarrow>
                                (Inl (Error (''Agent tool call failed: '' @ message_of e)),
                                 addError stepNo (ctx_stepIndex ctx) (message_of e)
                                   ''agent-endpoint''
                                   (Some (''Tool '' @ opt_id selectedTool @ '' endpoint failed''))
                                   (addLog Err (''Tool call failed: '' @ message_of e)
                                      (Some stepNo) rt7))
                            | (Inr endpointResult, rt7) \<Rightarrow>
                                (let rt8 = addLog Info (''Tool call successful for ''
                                                        @ opt_id selectedTool) (Some stepNo) rt7
                                 in case w_JSON_parse w endpointResult of
                                      Inl e \<Rightarrow> (Inl e, rt8)
                                    | Inr parsed \<Rightarrow>
                                        (Inr (desc,
                                           JSON_stringify2
                                             (JObj [(''agentDecision'',
                                                     JObj [(''selectedTool'', JStr (opt_id selectedTool)),
                                                           (''selectedName'', JStr (opt_name selectedTool)),
                                                           (''reason'', JStr ''External data needed''),
                                                           (''llmResponse'', JStr (trim decisionResponse)),
                                                           (''endpoint'',
                                                            JStr (et_apiUrl (opt_endpoint selectedTool)))]),
                                                    (''data'', parsed)])),
                                         rt8))))))"

subsection \<open>\<open>getStepType\<close> and \<open>executeStep\<close> (\<open>steps/index.ts\<close>)\<close>

fun getStepType :: "NormalizedInstruction \<Rightarrow> string" where
  "getStepType (Conditional i) = ''llm''"
| "getStepType (Endpoint i) = ''endpoint''"
| "getStepType (Thread i) = ''thread''"
| "getStepType (Router i) = ''router''"
| "getStepType (Agent i) = ''agent''"

fun executeStep ::
  "world \<Rightarrow> NormalizedInstruction \<Rightarrow> StepContext \<Rightarrow> runtime
     \<Rightarrow> (exn + string \<times> string) \<times> runtime" where
  "executeStep w (Endpoint i) ctx rt = executeEndpointStep w i ctx rt"
| "executeStep w (Thread i) ctx rt = executeThreadStep w i ctx rt"
| "executeStep w (Router i) ctx rt = executeRouterStep w i ctx rt"
| "executeStep w (Agent i) ctx rt = executeAgentStep w i ctx rt"
| "executeStep w (Conditional i) ctx rt = executeLLMStep w i ctx rt"

section \<open>The sequential scheduler (\<open>MyWorkflow.run\<close> of \<open>index.ts\<close>)\<close>

record Params =
  p_context :: string
  p_instructions :: "(string + NormalizedInstruction) list option"
  p_provider :: "provider option"
  p_model :: "string option"
  p_firstInstruction :: "string option"
  p_secondInstruction :: "string option"

record Env =
  ANTHROPIC_API_KEY :: "string option"
  OPENAI_API_KEY :: "string option"

text \<open>What \<open>run\<close> fixes before its loop starts and never changes afterwards.\<close>

record run_config =
  rc_provider :: provider
  rc_apiKey :: string
  rc_selectedModel :: string
  rc_context :: string
  rc_normalizedInstructions :: "NormalizedInstruction list"
  rc_branchTargetSteps :: "int set"

record run_state =
  executedSteps :: "int set"
  executionQueue :: "int list"
  rs_runtime :: runtime

text \<open>A bare string becomes an instruction without a condition; an object is kept.\<close>

definition normalizeInstruction :: "string + NormalizedInstruction \<Rightarrow> NormalizedInstruction" where
  "normalizeInstruction inst =
     (case inst of
        Inl text \<Rightarrow> Conditional \<lparr>ci_instruction = text, ci_condition = None\<rparr>
      | Inr obj \<Rightarrow> obj)"

text \<open>
  \<open>branchTargetSteps\<close>: every index listed in an \<open>ifTrue\<close> or an \<open>ifFalse\<close> of any
  instruction.
\<close>

definition branchTargetSteps :: "NormalizedInstruction list \<Rightarrow> int set" where
  "branchTargetSteps normalizedInstructions =
     foldl (\<lambda>acc inst.
              case condition_of inst of
                None \<Rightarrow> acc
              | Some c \<Rightarrow>
                  (acc \<union> (case ifTrue c of None \<Rightarrow> {} | Some l \<Rightarrow> set l))
                    \<union> (case ifFalse c of None \<Rightarrow> {} | Some l \<Rightarrow> set l))
       {} normalizedInstructions"

definition missing_key_message :: "string \<Rightarrow> string" where
  "missing_key_message keyName =
     keyName @ '' environment variable is required. ''
     @ ''For local development, ensure .dev.vars file exists in the project root with ''
     @ keyName @ '' set. '' @ ''For production, set it using: wrangler secret put '' @ keyName"

text \<open>Lines 92 to 247: defaults, the API key, the instruction array, the branch targets.\<close>

definition prepare :: "Env \<Rightarrow> Params \<Rightarrow> exn + run_config" where
  "prepare env payload =
     (let prov = (case p_provider payload of None \<Rightarrow> OpenAI | Some p \<Rightarrow> p);
          defaultModel = (if prov = Anthropic then ''claude-haiku-4-5'' else ''gpt-5-nano'');
          selectedModel = string_or (p_model payload) defaultModel;
          apiKey = (if prov = Anthropic then ANTHROPIC_API_KEY env else OPENAI_API_KEY env);
          rawInstructions =
            (case p_instructions payload of
               Some (i # is) \<Rightarrow> i # is
             | _ \<Rightarrow>
                 if truthy_string (p_firstInstruction payload)
                    \<and> truthy_string (p_secondInstruction payload)
                 then [Inl (string_or (p_firstInstruction payload) []),
                       Inl (string_or (p_secondInstruction payload) [])]
                 else [])
      in if \<not> truthy_string apiKey
           then Inl (Error (missing_key_message
                              (if prov = Anthropic then ''ANTHROPIC_API_KEY''
                               else ''OPENAI_API_KEY'')))
         else if rawInstructions = []
           then Inl (Error ''At least one instruction is required'')
         else Inr \<lparr>rc_provider = prov,
                   rc_apiKey = string_or apiKey [],
                   rc_selectedModel = selectedModel,
                   rc_context = p_context payload,
                   rc_normalizedInstructions = map normalizeInstruction rawInstructions,
                   rc_branchTargetSteps =
                     branchTargetSteps (map normalizeInstruction rawInstructions)\<rparr>)"

definition initial_state :: "run_config \<Rightarrow> run_state" where
  "initial_state cfg =
     \<lparr>executedSteps = {},
      executionQueue = [0],
      rs_runtime =
        addLog Info (''Starting workflow with ''
                     @ number_toString (int (length (rc_normalizedInstructions cfg)))
                     @ '' instructions'') None
          \<lparr>rt_currentResult =
              \<lparr>originalContext = rc_context cfg, steps = [], finalizedAt = [],
               errors = [], logs = []\<rparr>,
           rt_ticks = 0,
           rt_console = []\<rparr>\<rparr>"

text \<open>
  Lines 340 to 359: the text the condition is evaluated against and the step number it
  is attributed to. With \<open>evaluateAfterStep\<close> the result is looked up among the results
  stored so far, and its absence is an error.
\<close>

definition resultToEvaluate ::
  "Condition \<Rightarrow> string \<Rightarrow> int \<Rightarrow> StepResult list \<Rightarrow> exn + string \<times> int" where
  "resultToEvaluate condition stepRes stepNo produced =
     (case evaluateAfterStep condition of
        Some k \<Rightarrow>
          (case find (\<lambda>s. stepNumber s = k) produced of
             None \<Rightarrow> Inl (Error (''Cannot evaluate condition: step '' @ number_toString k
                                 @ '' not found''))
           | Some stepToEvaluate \<Rightarrow> Inr (result stepToEvaluate, k))
      | None \<Rightarrow> Inr (stepRes, stepNo))"

text \<open>\<open>if (stepIndex + 1 < normalizedInstructions.length) executionQueue.push(stepIndex + 1)\<close>.\<close>

definition pushNext :: "int \<Rightarrow> nat \<Rightarrow> int list \<Rightarrow> int list" where
  "pushNext stepIdx n queue = (if stepIdx + 1 < int n then queue @ [stepIdx + 1] else queue)"

text \<open>
  Lines 385 to 407: on a true verdict the \<open>ifTrue\<close> list is pushed when it is present and
  not empty, otherwise the next index; on a false verdict the same with \<open>ifFalse\<close>.
\<close>

definition pushBranch :: "Condition \<Rightarrow> bool \<Rightarrow> int \<Rightarrow> nat \<Rightarrow> int list \<Rightarrow> int list" where
  "pushBranch condition conditionRes stepIdx n queue =
     (if conditionRes then
        (case ifTrue condition of
           Some (t # ts) \<Rightarrow> queue @ (t # ts)
         | _ \<Rightarrow> pushNext stepIdx n queue)
      else
        (case ifFalse condition of
           Some (f # fs) \<Rightarrow> queue @ (f # fs)
         | _ \<Rightarrow> pushNext stepIdx n queue))"

definition pushStep :: "StepResult \<Rightarrow> runtime \<Rightarrow> runtime" where
  "pushStep sr rt =
     rt\<lparr>rt_currentResult := (rt_currentResult rt)\<lparr>steps := steps (rt_currentResult rt) @ [sr]\<rparr>\<rparr>"

text \<open>
  One pass of the loop body from line 267 on, for an index that has just been added to
  \<open>executedSteps\<close>: dispatch, condition, enqueueing, storing the result. The first
  component is the error thrown, if any; the loop is left at a throw. \<open>step.do\<close> is taken
  to deliver the outcome of its callback; the retry policy it is given belongs to the
  hosting platform.
\<close>

definition run_step :: "world \<Rightarrow> run_config \<Rightarrow> int \<Rightarrow> run_state \<Rightarrow> exn option \<times> run_state" where
  "run_step w cfg stepIdx st =
     (let instructionConfig = rc_normalizedInstructions cfg ! nat stepIdx;
          produced = steps (rt_currentResult (rs_runtime st));
          stepNo = int (length produced) + 1;
          isFirstStep = (length produced = 0);
          previousResult = (if length produced > 0 then result (last produced)
                            else rc_context cfg);
          instructionType = getStepType instructionConfig;
          rt1 = addLog Info (''Starting step '' @ number_toString stepNo @ '' (''
                             @ instructionType @ '')'') (Some stepNo) (rs_runtime st);
          stepContext = \<lparr>ctx_provider = rc_provider cfg,
                         ctx_apiKey = rc_apiKey cfg,
                         ctx_model = rc_selectedModel cfg,
                         ctx_previousResult = previousResult,
                         ctx_isFirstStep = isFirstStep,
                         ctx_stepNumber = stepNo,
                         ctx_stepIndex = stepIdx\<rparr>
      in case executeStep w instructionConfig stepContext rt1 of
           (Inl e, rt2) \<Rightarrow> (Some e, st\<lparr>rs_runtime := rt2\<rparr>)
         | (Inr (instr, res), rt2) \<Rightarrow>
             (case condition_of instructionConfig of
                Some condition \<Rightarrow>
                  (case resultToEvaluate condition res stepNo (steps (rt_currentResult rt2)) of
                     Inl e \<Rightarrow> (Some e, st\<lparr>rs_runtime := rt2\<rparr>)
                   | Inr (subject, stepNumberToEvaluate) \<Rightarrow>
                       (case evaluateCondition w (rc_provider cfg) (rc_apiKey cfg)
                               (rc_selectedModel cfg) (expression condition) subject
                               stepNumberToEvaluate rt2 of
                          (Inl e, rt3) \<Rightarrow> (Some e, st\<lparr>rs_runtime := rt3\<rparr>)
                        | (Inr conditionRes, rt3) \<Rightarrow>
                            (None,
                             st\<lparr>executionQueue :=
                                  pushBranch condition conditionRes stepIdx
                                    (length (rc_normalizedInstructions cfg)) (executionQueue st),
                                rs_runtime :=
                                  pushStep
                                    \<lparr>stepNumber = stepNo, instruction = instr, result = res,
                                     conditionEvaluated = True,
                                     conditionResult = Some conditionRes,
                                     branchTaken = (if conditionRes then BranchTrue
                                                    else BranchFalse),
                                     stepIndex = stepIdx\<rparr> rt3\<rparr>)))
              | None \<Rightarrow>
                  (None,
                   st\<lparr>executionQueue :=
                        (if stepIdx \<notin> rc_branchTargetSteps cfg
                         then pushNext stepIdx (length (rc_normalizedInstructions cfg))
                                (executionQueue st)
                         else executionQueue st),
                      rs_runtime :=
                        pushStep
                          \<lparr>stepNumber = stepNo, instruction = instr, result = res,
                           conditionEvaluated = False,
                           conditionResult = None,
                           branchTaken = Sequential,
                           stepIndex = stepIdx\<rparr> rt2\<rparr>)))"

text \<open>
  The loop of lines 253 to 428. An index that was executed before, or that lies outside
  the instruction array, is dropped; any other is marked executed and processed. That
  the recursion ends on every input is proved below, before anything is proved about it.
\<close>

function run_loop :: "world \<Rightarrow> run_config \<Rightarrow> run_state \<Rightarrow> exn option \<times> run_state" where
  "run_loop w cfg st =
     (case executionQueue st of
        [] \<Rightarrow> (None, st)
      | stepIdx # rest \<Rightarrow>
          if stepIdx \<in> executedSteps st
            then run_loop w cfg (st\<lparr>executionQueue := rest\<rparr>)
          else if stepIdx < 0 \<or> stepIdx \<ge> int (length (rc_normalizedInstructions cfg))
            then run_loop w cfg (st\<lparr>executionQueue := rest\<rparr>)
          else
            (case run_step w cfg stepIdx
                    (st\<lparr>executionQueue := rest,
                       executedSteps := insert stepIdx (executedSteps st)\<rparr>) of
               (thrown, st') \<Rightarrow>
                 (case thrown of
                    Some e \<Rightarrow> (Some e, st')
                  | None \<Rightarrow> run_loop w cfg st')))"
  apply pat_completeness
  apply (elim Pair_inject)
  apply hypsubst
  apply (rule refl)
  done

text \<open>
  \<open>run\<close>: what the caller gets. A thrown error ends the run without a result; otherwise
  the result is stamped with the time it was finalized.
\<close>

definition run :: "world \<Rightarrow> Env \<Rightarrow> Params \<Rightarrow> exn + WorkflowResult" where
  "run w env payload =
     (case prepare env payload of
        Inl e \<Rightarrow> Inl e
      | Inr cfg \<Rightarrow>
          (case run_loop w cfg (initial_state cfg) of
             (Some e, st) \<Rightarrow> Inl e
           | (None, st) \<Rightarrow>
               Inr ((rt_currentResult (rs_runtime st))
                      \<lparr>finalizedAt := w_now w (rt_ticks (rs_runtime st))\<rparr>)))"

section \<open>Submission (\<open>POST /\<close> of the \<open>fetch\<close> handler)\<close>

text \<open>
  The request body is parsed JSON that is only declared, not checked, to have the type
  \<open>Params\<close>. An instruction object on the wire is therefore modelled with every property
  optional: an absent key is \<open>None\<close>.
\<close>

record WireObject =
  wo_type :: "string option"
  wo_instruction :: "string option"
  wo_condition :: "Condition option"
  wo_endpointUrl :: "string option"
  wo_apiUrl :: "string option"
  wo_collectFromSteps :: "int list option"
  wo_description :: "string option"
  wo_evaluationPrompt :: "string option"
  wo_options :: "ToolOption list option"
  wo_decisionPrompt :: "string option"
  wo_availableTools :: "ToolOption list option"
  wo_fallbackBehavior :: "string option"

text \<open>
  The properties that \<open>types.ts\<close> declares without a question mark, for the variant that
  the \<open>type\<close> property selects.
\<close>

definition has_required_fields :: "WireObject \<Rightarrow> bool" where
  "has_required_fields obj =
     (if wo_type obj = Some ''endpoint''
        then wo_endpointUrl obj \<noteq> None \<and> wo_apiUrl obj \<noteq> None
      else if wo_type obj = Some ''thread''
        then wo_collectFromSteps obj \<noteq> None
      else if wo_type obj = Some ''router''
        then wo_description obj \<noteq> None \<and> wo_evaluationPrompt obj \<noteq> None
             \<and> wo_options obj \<noteq> None
      else if wo_type obj = Some ''agent''
        then wo_description obj \<noteq> None \<and> wo_decisionPrompt obj \<noteq> None
             \<and> wo_availableTools obj \<noteq> None \<and> wo_fallbackBehavior obj \<noteq> None
      else wo_instruction obj \<noteq> None)"

record PostBody =
  b_context :: "string option"
  b_instructions :: "(string + WireObject) list option"
  b_provider :: "provider option"
  b_model :: "string option"
  b_firstInstruction :: "string option"
  b_secondInstruction :: "string option"

text \<open>
  The two outcomes of the handler that the model keeps apart: a reply with status 400 and
  an error text, and the creation of a workflow instance with the given parameters.
\<close>

datatype Response = BadRequest string | InstanceCreated PostBody

definition out_of_bounds_message :: "nat \<Rightarrow> string \<Rightarrow> int \<Rightarrow> string" where
  "out_of_bounds_message i branch idx =
     ''Conditional instruction '' @ number_toString (int i) @ '': '' @ branch @ '' index ''
     @ number_toString idx @ '' is out of bounds''"

definition outOfBounds :: "nat \<Rightarrow> int \<Rightarrow> bool" where
  "outOfBounds n idx = (idx < 0 \<or> idx \<ge> int n)"

text \<open>Lines 605 to 631: the check of the instruction at position \<open>i\<close>.\<close>

definition validateInstruction :: "nat \<Rightarrow> nat \<Rightarrow> string + WireObject \<Rightarrow> string option" where
  "validateInstruction n i inst =
     (case inst of
        Inl text \<Rightarrow> None
      | Inr obj \<Rightarrow>
          (case wo_condition obj of
             None \<Rightarrow> None
           | Some cond \<Rightarrow>
               (case find (outOfBounds n) (case ifTrue cond of None \<Rightarrow> [] | Some l \<Rightarrow> l) of
                  Some idx \<Rightarrow> Some (out_of_bounds_message i ''ifTrue'' idx)
                | None \<Rightarrow>
                    (case find (outOfBounds n)
                            (case ifFalse cond of None \<Rightarrow> [] | Some l \<Rightarrow> l) of
                       Some idx \<Rightarrow> Some (out_of_bounds_message i ''ifFalse'' idx)
                     | None \<Rightarrow> None))))"

text \<open>The loop of line 603 from position \<open>i\<close> on; it returns at the first error.\<close>

fun validateFrom :: "nat \<Rightarrow> nat \<Rightarrow> (string + WireObject) list \<Rightarrow> string option" where
  "validateFrom n i [] = None"
| "validateFrom n i (inst # insts) =
     (case validateInstruction n i inst of
        Some err \<Rightarrow> Some err
      | None \<Rightarrow> validateFrom n (Suc i) insts)"

definition missing_instructions_message :: string where
  "missing_instructions_message =
     ''Missing required fields: either 'instructions' array or 'firstInstruction' and 'secondInstruction'' @ [CHR 0x27]"

definition fetch_post :: "PostBody \<Rightarrow> Response" where
  "fetch_post body =
     (if \<not> truthy_string (b_context body)
        then BadRequest ''Missing required field: context''
      else
        (let hasInstructions = (case b_instructions body of Some (i # is) \<Rightarrow> True | _ \<Rightarrow> False);
             hasLegacyInstructions = (truthy_string (b_firstInstruction body)
                                      \<and> truthy_string (b_secondInstruction body))
         in if \<not> hasInstructions \<and> \<not> hasLegacyInstructions
              then BadRequest missing_instructions_message
            else
              (case (case b_instructions body of
                       Some (i # is) \<Rightarrow> validateFrom (length (i # is)) 0 (i # is)
                     | _ \<Rightarrow> None) of
                 Some err \<Rightarrow> BadRequest err
               | None \<Rightarrow> InstanceCreated body)))"

section \<open>Worlds and workflows of the examples\<close>

text \<open>
  A world whose language model never fails: the call number \<open>t\<close> with the system prompt
  \<open>s\<close> is answered \<open>answer t s\<close>. Nothing else is reachable in it.
\<close>

definition oracle_world :: "(nat \<Rightarrow> string \<Rightarrow> string) \<Rightarrow> world" where
  "oracle_world answer =
     \<lparr>w_callLLM = (\<lambda>t prov apiKey model systemPrompt userPrompt. Inr (answer t systemPrompt)),
      w_callEndpoint = (\<lambda>t call. Inl (Error ''unreachable'')),
      w_fetchMock = (\<lambda>t req. Inl (Error ''unreachable'')),
      w_JSON_parse = (\<lambda>text. Inl (Error ''Unexpected token'')),
      w_now = (\<lambda>t. ''2025-01-01T00:00:00.000Z'')\<rparr>"

definition empty_runtime :: runtime where
  "empty_runtime =
     \<lparr>rt_currentResult =
         \<lparr>originalContext = ''ctx'', steps = [], finalizedAt = [], errors = [], logs = []\<rparr>,
      rt_ticks = 0,
      rt_console = []\<rparr>"

definition example_env :: Env where
  "example_env = \<lparr>ANTHROPIC_API_KEY = None, OPENAI_API_KEY = Some ''sk-test''\<rparr>"

text \<open>
  Example A of the specification: a plain step, a conditioned step that branches to index
  2 on true and to index 3 on false, and the two targets.
\<close>

definition exampleA_instructions :: "(string + NormalizedInstruction) list" where
  "exampleA_instructions =
     [Inl ''A'',
      Inr (Conditional
             \<lparr>ci_instruction = ''check'',
              ci_condition = Some \<lparr>evaluateAfterStep = None, expression = ''contains YES'',
                                   ifTrue = Some [2], ifFalse = Some [3]\<rparr>\<rparr>),
      Inl ''success'',
      Inl ''fail'']"

definition exampleA_payload :: Params where
  "exampleA_payload =
     \<lparr>p_context = ''ctx'', p_instructions = Some exampleA_instructions, p_provider = None,
      p_model = None, p_firstInstruction = None, p_secondInstruction = None\<rparr>"

definition exampleA_config :: run_config where
  "exampleA_config =
     \<lparr>rc_provider = OpenAI, rc_apiKey = ''sk-test'', rc_selectedModel = ''gpt-5-nano'',
      rc_context = ''ctx'',
      rc_normalizedInstructions = map normalizeInstruction exampleA_instructions,
      rc_branchTargetSteps = {2, 3}\<rparr>"

text \<open>A language model that answers the condition evaluator \<open>yes\<close>, and one that answers \<open>true\<close>.\<close>

definition yes_world :: world where
  "yes_world = oracle_world (\<lambda>t s. if s = condition_systemPrompt then ''yes'' else ''ok'')"

definition true_world :: world where
  "true_world = oracle_world (\<lambda>t s. if s = condition_systemPrompt then ''true'' else ''ok'')"

text \<open>Two conditioned steps that name each other on both branches: a cycle.\<close>

definition cyclic_instructions :: "(string + NormalizedInstruction) list" where
  "cyclic_instructions =
     [Inr (Conditional
             \<lparr>ci_instruction = ''ping'',
              ci_condition = Some \<lparr>evaluateAfterStep = None, expression = ''is it done'',
                                   ifTrue = Some [1], ifFalse = Some [1]\<rparr>\<rparr>),
      Inr (Conditional
             \<lparr>ci_instruction = ''pong'',
              ci_condition = Some \<lparr>evaluateAfterStep = None, expression = ''is it done'',
                                   ifTrue = Some [0], ifFalse = Some [0]\<rparr>\<rparr>)]"

definition cyclic_payload :: Params where
  "cyclic_payload =
     \<lparr>p_context = ''ctx'', p_instructions = Some cyclic_instructions, p_provider = None,
      p_model = None, p_firstInstruction = None, p_secondInstruction = None\<rparr>"

definition cyclic_config :: run_config where
  "cyclic_config =
     \<lparr>rc_provider = OpenAI, rc_apiKey = ''sk-test'', rc_selectedModel = ''gpt-5-nano'',
      rc_context = ''ctx'',
      rc_normalizedInstructions = map normalizeInstruction cyclic_instructions,
      rc_branchTargetSteps = {0, 1}\<rparr>"

text \<open>
  Index 1 is the branch target of index 0 and carries a condition without branch lists;
  index 2 follows it.
\<close>

definition chain_instructions :: "(string + NormalizedInstruction) list" where
  "chain_instructions =
     [Inr (Conditional
             \<lparr>ci_instruction = ''first'',
              ci_condition = Some \<lparr>evaluateAfterStep = None, expression = ''goes on'',
                                   ifTrue = Some [1], ifFalse = None\<rparr>\<rparr>),
      Inr (Conditional
             \<lparr>ci_instruction = ''second'',
              ci_condition = Some \<lparr>evaluateAfterStep = None, expression = ''goes on'',
                                   ifTrue = None, ifFalse = Some []\<rparr>\<rparr>),
      Inl ''third'']"

definition chain_config :: run_config where
  "chain_config =
     \<lparr>rc_provider = OpenAI, rc_apiKey = ''sk-test'', rc_selectedModel = ''gpt-5-nano'',
      rc_context = ''ctx'',
      rc_normalizedInstructions = map normalizeInstruction chain_instructions,
      rc_branchTargetSteps = {1}\<rparr>"

text \<open>The scheduler's state when index \<open>i\<close> has just been taken from a queue that held only it.\<close>

definition state_at :: "run_config \<Rightarrow> int \<Rightarrow> run_state" where
  "state_at cfg i = (initial_state cfg)\<lparr>executionQueue := [], executedSteps := {i}\<rparr>"

text \<open>A router with two options and a configured default, and the same without default.\<close>

definition weather_option :: ToolOption where
  "weather_option =
     \<lparr>opt_id = ''Weather'', opt_name = ''Weather service'',
      opt_description = ''current weather'',
      opt_endpoint = \<lparr>et_endpointUrl = ''https://endpoint-1.example.dev'',
                       et_apiUrl = ''https://api.example.com/weather'',
                       et_method = None, et_headers = None, et_body = None\<rparr>\<rparr>"

definition news_option :: ToolOption where
  "news_option =
     \<lparr>opt_id = ''news'', opt_name = ''News service'',
      opt_description = ''latest headlines'',
      opt_endpoint = \<lparr>et_endpointUrl = ''https://endpoint-2.example.dev'',
                       et_apiUrl = ''https://api.example.com/news'',
                       et_method = None, et_headers = None, et_body = None\<rparr>\<rparr>"

definition router_example :: "string option \<Rightarrow> RouterInstruction" where
  "router_example dflt =
     \<lparr>ri_description = ''pick a source'', ri_evaluationPrompt = ''Which source fits?'',
      ri_options = [weather_option, news_option], ri_defaultOption = dflt,
      ri_retries = None, ri_retryDelay = None, ri_timeout = None, ri_condition = None\<rparr>"

text \<open>A thread step over the steps 1, 2 and 3, and a runtime in which steps 1 and 2 are stored.\<close>

definition thread_example :: "int list \<Rightarrow> string option \<Rightarrow> ThreadInstruction" where
  "thread_example collect format =
     \<lparr>ti_collectFromSteps = collect, ti_outputFormat = format, ti_description = None,
      ti_completionCheck = None, ti_condition = None\<rparr>"

definition two_steps_runtime :: runtime where
  "two_steps_runtime =
     \<lparr>rt_currentResult =
         \<lparr>originalContext = ''ctx'',
          steps = [\<lparr>stepNumber = 1, instruction = ''Call A'', result = ''A'',
                    conditionEvaluated = False, conditionResult = None,
                    branchTaken = Sequential, stepIndex = 0\<rparr>,
                   \<lparr>stepNumber = 2, instruction = ''Call B'', result = ''B'',
                    conditionEvaluated = False, conditionResult = None,
                    branchTaken = Sequential, stepIndex = 1\<rparr>],
          finalizedAt = [], errors = [], logs = []\<rparr>,
      rt_ticks = 2,
      rt_console = []\<rparr>"

definition third_step_context :: StepContext where
  "third_step_context =
     \<lparr>ctx_provider = OpenAI, ctx_apiKey = ''sk-test'', ctx_model = ''gpt-5-nano'',
      ctx_previousResult = ''B'', ctx_isFirstStep = False, ctx_stepNumber = 3,
      ctx_stepIndex = 2\<rparr>"

text \<open>An agent with one tool that passes the previous result on when no tool is needed.\<close>

definition agent_example :: AgentInstruction where
  "agent_example =
     \<lparr>ai_description = ''decide'', ai_decisionPrompt = ''Is live data needed?'',
      ai_availableTools = [weather_option], ai_fallbackBehavior = ''skip'',
      ai_llmFallbackPrompt = None, ai_retries = None, ai_retryDelay = None,
      ai_timeout = None, ai_condition = None\<rparr>"

definition none_world :: world where
  "none_world = oracle_world (\<lambda>t s. ''none'')"

text \<open>The entry of \<open>collectedResults\<close> made from a stored result.\<close>

definition collected_of :: "StepResult \<Rightarrow> Collected" where
  "collected_of s =
     \<lparr>col_stepNumber = stepNumber s, col_instruction = instruction s, col_result = result s\<rparr>"

text \<open>The branch lists of a condition as lists: an absent list contributes nothing.\<close>

definition ifTrue_list :: "Condition \<Rightarrow> int list" where
  "ifTrue_list c = (case ifTrue c of None \<Rightarrow> [] | Some l \<Rightarrow> l)"

definition ifFalse_list :: "Condition \<Rightarrow> int list" where
  "ifFalse_list c = (case ifFalse c of None \<Rightarrow> [] | Some l \<Rightarrow> l)"

text \<open>
  Two submissions: a thread instruction without its required \<open>collectFromSteps\<close>, and a
  conditioned instruction whose \<open>ifTrue\<close> names index 7 of a two-element array.
\<close>

definition empty_wire_object :: WireObject where
  "empty_wire_object =
     \<lparr>wo_type = None, wo_instruction = None, wo_condition = None, wo_endpointUrl = None,
      wo_apiUrl = None, wo_collectFromSteps = None, wo_description = None,
      wo_evaluationPrompt = None, wo_options = None, wo_decisionPrompt = None,
      wo_availableTools = None, wo_fallbackBehavior = None\<rparr>"

definition body_with :: "(string + WireObject) list \<Rightarrow> PostBody" where
  "body_with insts =
     \<lparr>b_context = Some ''ctx'', b_instructions = Some insts, b_provider = None,
      b_model = None, b_firstInstruction = None, b_secondInstruction = None\<rparr>"

definition malformed_thread_body :: PostBody where
  "malformed_thread_body =
     body_with [Inl ''A'', Inr (empty_wire_object\<lparr>wo_type := Some ''thread''\<rparr>)]"

definition out_of_bounds_condition :: Condition where
  "out_of_bounds_condition =
     \<lparr>evaluateAfterStep = None, expression = ''is it done'', ifTrue = Some [7], ifFalse = None\<rparr>"

definition out_of_bounds_object :: WireObject where
  "out_of_bounds_object =
     empty_wire_object\<lparr>wo_instruction := Some ''check'',
                        wo_condition := Some out_of_bounds_condition\<rparr>"

definition out_of_bounds_body :: PostBody where
  "out_of_bounds_body = body_with [Inl ''A'', Inr out_of_bounds_object]"

section \<open>Observations on runs\<close>

text \<open>
  The trace of a finished run: for each stored result, in order, its step number, the
  index of the instruction it ran and the branch recorded with it.
\<close>

definition run_trace :: "exn + WorkflowResult \<Rightarrow> (int \<times> int \<times> BranchTaken) list option" where
  "run_trace r =
     (case r of
        Inl e \<Rightarrow> None
      | Inr res \<Rightarrow> Some (map (\<lambda>s. (stepNumber s, stepIndex s, branchTaken s)) (steps res)))"

text \<open>The indices of the stored results of a state, in order.\<close>

definition executed_indices :: "run_state \<Rightarrow> int list" where
  "executed_indices st = map stepIndex (steps (rt_currentResult (rs_runtime st)))"

text \<open>The result text of a handler's outcome, if it returned.\<close>

definition resultText :: "(exn + string \<times> string) \<times> runtime \<Rightarrow> string option" where
  "resultText outcome = (case fst outcome of Inl e \<Rightarrow> None | Inr (instr, res) \<Rightarrow> Some res)"

text \<open>
  What holds of the scheduler's state between two passes of its loop over \<open>n\<close>
  instructions: no index has two stored results, every stored result belongs to an
  executed index, executed indices lie in the array, and step numbers count up from 1.
\<close>

definition scheduler_invariant :: "nat \<Rightarrow> run_state \<Rightarrow> bool" where
  "scheduler_invariant n st =
     (distinct (executed_indices st)
      \<and> set (executed_indices st) \<subseteq> executedSteps st
      \<and> executedSteps st \<subseteq> {0..<int n}
      \<and> map stepNumber (steps (rt_currentResult (rs_runtime st)))
          = map int [1..<Suc (length (steps (rt_currentResult (rs_runtime st))))])"

text \<open>
  An instruction that only calls the language model and whose condition, if it has one,
  is evaluated against its own result.
\<close>

definition plain_llm :: "NormalizedInstruction \<Rightarrow> bool" where
  "plain_llm inst =
     (case inst of
        Conditional i \<Rightarrow>
          (case ci_condition i of None \<Rightarrow> True | Some c \<Rightarrow> evaluateAfterStep c = None)
      | _ \<Rightarrow> False)"

text \<open>The indices an instruction names as branch targets.\<close>

definition targets_of :: "NormalizedInstruction \<Rightarrow> int set" where
  "targets_of inst =
     (case condition_of inst of
        None \<Rightarrow> {}
      | Some c \<Rightarrow>
          (case ifTrue c of None \<Rightarrow> {} | Some l \<Rightarrow> set l)
            \<union> (case ifFalse c of None \<Rightarrow> {} | Some l \<Rightarrow> set l))"

section \<open>The loop terminates\<close>

text \<open>
  A pass never touches \<open>executedSteps\<close>, so every dispatch leaves one in-range index
  fewer to execute, and every dropped index leaves the queue shorter.
\<close>

lemma run_step_executedSteps:
  "executedSteps (snd (run_step w cfg stepIdx st)) = executedSteps st"
  unfolding run_step_def Let_def
  by (simp split: prod.split sum.split option.split)

lemma card_unexecuted_less:
  fixes E :: "int set"
  assumes "i \<notin> E" and "0 \<le> i" and "i < int n"
  shows "card ({0..<int n} - insert i E) < card ({0..<int n} - E)"
proof -
  have "i \<in> {0..<int n} - E" using assms by simp
  then have "{0..<int n} - insert i E \<subset> {0..<int n} - E" by blast
  then show ?thesis by (simp add: psubset_card_mono)
qed

lemma run_step_executedSteps':
  "(x, y) = run_step w cfg stepIdx st \<Longrightarrow> executedSteps y = executedSteps st"
  by (metis run_step_executedSteps snd_conv)

termination run_loop
  apply (relation "measures
    [\<lambda>(w, cfg, st). card ({0..<int (length (rc_normalizedInstructions cfg))} - executedSteps st),
     \<lambda>(w, cfg, st). length (executionQueue st)]")
  apply (rule wf_measures)
  subgoal for w cfg st stepIdx rest
    by simp
  subgoal for w cfg st stepIdx rest
    by simp
  subgoal premises prems for w cfg st stepIdx rest thrown st'
  proof -
    have ex: "executedSteps st' = insert stepIdx (executedSteps st)"
      using run_step_executedSteps'[OF prems(4)] by simp
    have "card ({0..<int (length (rc_normalizedInstructions cfg))} - executedSteps st')
            < card ({0..<int (length (rc_normalizedInstructions cfg))} - executedSteps st)"
      unfolding ex using prems(2,3) by (intro card_unexecuted_less) auto
    then show ?thesis by simp
  qed
  done

declare run_loop.simps [simp del]

section \<open>Facts about the string functions\<close>

lemma str_includes_sublist: "str_includes hay needle \<longleftrightarrow> sublist needle hay"
  by (induction hay) (auto simp: sublist_Cons_right)

section \<open>The condition evaluator's verdict\<close>

text \<open>
  C4. Whatever text the Oracle answers, the evaluator returns true exactly when the
  trimmed, lowercased answer contains \<open>true\<close> and does not contain \<open>false\<close>; it returns
  false when the normalized answer contains \<open>false\<close>; when the answer contains neither
  word it returns false and writes one warning, quoting the answer, to the console. No
  warning is written in the other cases.
\<close>

theorem evaluateCondition_verdict:
  assumes "w_callLLM w (rt_ticks rt) prov apiKey model condition_systemPrompt
             (condition_userPrompt e r n) = Inr answer"
  shows "fst (evaluateCondition w prov apiKey model e r n rt)
           = Inr (str_includes (toLowerCase (trim answer)) ''true''
                  \<and> \<not> str_includes (toLowerCase (trim answer)) ''false'')
         \<and> (str_includes (toLowerCase (trim answer)) ''false''
              \<longrightarrow> fst (evaluateCondition w prov apiKey model e r n rt) = Inr False)
         \<and> (\<not> str_includes (toLowerCase (trim answer)) ''true''
              \<and> \<not> str_includes (toLowerCase (trim answer)) ''false''
              \<longrightarrow> fst (evaluateCondition w prov apiKey model e r n rt) = Inr False
                  \<and> rt_console (snd (evaluateCondition w prov apiKey model e r n rt))
                      = rt_console rt @ [unclear_warning answer])
         \<and> (str_includes (toLowerCase (trim answer)) ''true''
              \<or> str_includes (toLowerCase (trim answer)) ''false''
              \<longrightarrow> rt_console (snd (evaluateCondition w prov apiKey model e r n rt))
                      = rt_console rt)"
  using assms
  by (simp add: evaluateCondition_def callLLM_def console_warn_def Let_def)


theorem evaluateCondition_verdict_witness:
  "w_callLLM (oracle_world (\<lambda>t s. ''maybe'')) (rt_ticks empty_runtime) OpenAI ''key'' ''gpt-5-nano''
       condition_systemPrompt (condition_userPrompt ''contains YES'' ''no idea'' 2) = Inr ''maybe''
   \<and> fst (evaluateCondition (oracle_world (\<lambda>t s. ''maybe'')) OpenAI ''key'' ''gpt-5-nano''
            ''contains YES'' ''no idea'' 2 empty_runtime) = Inr False
   \<and> rt_console (snd (evaluateCondition (oracle_world (\<lambda>t s. ''maybe'')) OpenAI ''key''
            ''gpt-5-nano'' ''contains YES'' ''no idea'' 2 empty_runtime))
        = [unclear_warning ''maybe'']"
  using evaluateCondition_verdict[of "oracle_world (\<lambda>t s. ''maybe'')" empty_runtime OpenAI
          "''key''" "''gpt-5-nano''" "''contains YES''" "''no idea''" 2 "''maybe''"]
  by (simp add: oracle_world_def empty_runtime_def toLowerCase_def toLowerCase_char_def
        trim_def isWhiteSpace_def)

section \<open>Handlers leave the stored results alone\<close>

lemma addLog_steps [simp]:
  "steps (rt_currentResult (addLog level message stepNo rt)) = steps (rt_currentResult rt)"
  by (simp add: addLog_def)

lemma addError_steps [simp]:
  "steps (rt_currentResult (addError a b c d e rt)) = steps (rt_currentResult rt)"
  by (simp add: addError_def)

lemma console_warn_steps [simp]:
  "steps (rt_currentResult (console_warn m rt)) = steps (rt_currentResult rt)"
  by (simp add: console_warn_def)

lemma pushStep_steps [simp]:
  "steps (rt_currentResult (pushStep sr rt)) = steps (rt_currentResult rt) @ [sr]"
  by (simp add: pushStep_def)

lemma callLLM_stepsD:
  "callLLM w p k m s u rt = (r, rt')
     \<Longrightarrow> steps (rt_currentResult rt') = steps (rt_currentResult rt)"
  by (auto simp: callLLM_def)

lemma callEndpoint_stepsD:
  "callEndpoint w c rt = (r, rt')
     \<Longrightarrow> steps (rt_currentResult rt') = steps (rt_currentResult rt)"
  by (auto simp: callEndpoint_def)

lemma fetchMock_stepsD:
  "fetchMock w c rt = (r, rt')
     \<Longrightarrow> steps (rt_currentResult rt') = steps (rt_currentResult rt)"
  by (auto simp: fetchMock_def)

lemma evaluateCondition_stepsD:
  "evaluateCondition w p k m e r n rt = (v, rt')
     \<Longrightarrow> steps (rt_currentResult rt') = steps (rt_currentResult rt)"
  unfolding evaluateCondition_def Let_def
  by (auto split: prod.splits sum.splits if_splits dest!: callLLM_stepsD)

lemma executeLLMStep_stepsD:
  "executeLLMStep w i ctx rt = (v, rt')
     \<Longrightarrow> steps (rt_currentResult rt') = steps (rt_currentResult rt)"
  unfolding executeLLMStep_def Let_def
  by (auto split: prod.splits sum.splits dest!: callLLM_stepsD)

lemma executeEndpointStep_stepsD:
  "executeEndpointStep w i ctx rt = (v, rt')
     \<Longrightarrow> steps (rt_currentResult rt') = steps (rt_currentResult rt)"
  unfolding executeEndpointStep_def Let_def
  by (auto split: prod.splits sum.splits dest!: callEndpoint_stepsD)

lemma executeThreadStep_stepsD:
  "executeThreadStep w i ctx rt = (v, rt')
     \<Longrightarrow> steps (rt_currentResult rt') = steps (rt_currentResult rt)"
  unfolding executeThreadStep_def Let_def
  by (auto split: prod.splits sum.splits if_splits dest!: evaluateCondition_stepsD)

lemma invokeTarget_stepsD:
  "invokeTarget w t a b c n rt = (v, rt')
     \<Longrightarrow> steps (rt_currentResult rt') = steps (rt_currentResult rt)"
  unfolding invokeTarget_def Let_def
  by (auto split: if_splits dest!: callEndpoint_stepsD fetchMock_stepsD)

lemma resolveRouterOption_stepsD:
  "resolveRouterOption i a n rt = (v, rt')
     \<Longrightarrow> steps (rt_currentResult rt') = steps (rt_currentResult rt)"
  unfolding resolveRouterOption_def Let_def
  by (auto split: option.splits if_splits)

lemma resolveAgentTool_stepsD:
  "resolveAgentTool i a n rt = (v, rt')
     \<Longrightarrow> steps (rt_currentResult rt') = steps (rt_currentResult rt)"
  unfolding resolveAgentTool_def Let_def
  by (auto split: option.splits list.splits)

lemma executeRouterStep_stepsD:
  "executeRouterStep w i ctx rt = (v, rt')
     \<Longrightarrow> steps (rt_currentResult rt') = steps (rt_currentResult rt)"
  unfolding executeRouterStep_def Let_def
  by (auto split: prod.splits sum.splits option.splits
           dest!: callLLM_stepsD resolveRouterOption_stepsD invokeTarget_stepsD)

lemma executeAgentStep_stepsD:
  "executeAgentStep w i ctx rt = (v, rt')
     \<Longrightarrow> steps (rt_currentResult rt') = steps (rt_currentResult rt)"
  unfolding executeAgentStep_def Let_def
  by (auto split: prod.splits sum.splits option.splits if_splits
           dest!: callLLM_stepsD resolveAgentTool_stepsD invokeTarget_stepsD)

lemma executeStep_stepsD:
  "executeStep w i ctx rt = (v, rt')
     \<Longrightarrow> steps (rt_currentResult rt') = steps (rt_currentResult rt)"
  by (cases i)
     (auto dest: executeLLMStep_stepsD executeEndpointStep_stepsD executeThreadStep_stepsD
                 executeRouterStep_stepsD executeAgentStep_stepsD)

section \<open>One pass of the loop\<close>

lemma run_step_thrown:
  assumes "run_step w cfg i st = (Some e, st')"
  shows "steps (rt_currentResult (rs_runtime st')) = steps (rt_currentResult (rs_runtime st))"
    and "executionQueue st' = executionQueue st"
    and "executedSteps st' = executedSteps st"
  using assms unfolding run_step_def Let_def
  by (auto split: prod.splits sum.splits option.splits
           dest!: executeStep_stepsD evaluateCondition_stepsD)

lemma run_step_stored:
  assumes "run_step w cfg i st = (None, st')"
  shows "\<exists>sr. steps (rt_currentResult (rs_runtime st'))
                 = steps (rt_currentResult (rs_runtime st)) @ [sr]
              \<and> stepIndex sr = i
              \<and> stepNumber sr = int (length (steps (rt_currentResult (rs_runtime st)))) + 1"
    and "executedSteps st' = executedSteps st"
  using assms unfolding run_step_def Let_def
  by (auto split: prod.splits sum.splits option.splits
           dest!: executeStep_stepsD evaluateCondition_stepsD)

lemma run_step_invariant:
  assumes inv: "scheduler_invariant n st" and new: "i \<notin> executedSteps st"
    and lo: "0 \<le> i" and hi: "i < int n"
    and r: "run_step w cfg i (st\<lparr>executionQueue := q, executedSteps := insert i (executedSteps st)\<rparr>)
              = (thrown, st')"
  shows "scheduler_invariant n st'"
proof (cases thrown)
  case None
  from run_step_stored[OF r[unfolded None]] obtain sr where
    s: "steps (rt_currentResult (rs_runtime st')) = steps (rt_currentResult (rs_runtime st)) @ [sr]"
    and si: "stepIndex sr = i"
    and sn: "stepNumber sr = int (length (steps (rt_currentResult (rs_runtime st)))) + 1"
    and ex: "executedSteps st' = insert i (executedSteps st)"
    by auto
  show ?thesis
    using inv new lo hi unfolding scheduler_invariant_def executed_indices_def s ex
    by (auto simp: si sn)
next
  case (Some e)
  from run_step_thrown[OF r[unfolded Some]] show ?thesis
    using inv lo hi unfolding scheduler_invariant_def executed_indices_def by auto
qed

section \<open>The loop keeps the invariant and ends with an empty queue\<close>

lemma run_loop_invariant:
  "scheduler_invariant (length (rc_normalizedInstructions cfg)) st
     \<Longrightarrow> scheduler_invariant (length (rc_normalizedInstructions cfg)) (snd (run_loop w cfg st))
         \<and> (fst (run_loop w cfg st) = None \<longrightarrow> executionQueue (snd (run_loop w cfg st)) = [])"
proof (induction w cfg st rule: run_loop.induct)
  case (1 w cfg st)
  let ?n = "length (rc_normalizedInstructions cfg)"
  show ?case
  proof (cases "executionQueue st")
    case Nil
    then show ?thesis using "1.prems" by (simp add: run_loop.simps[of w cfg st])
  next
    case (Cons stepIdx rest)
    have inv': "scheduler_invariant ?n (st\<lparr>executionQueue := rest\<rparr>)"
      using "1.prems" by (simp add: scheduler_invariant_def executed_indices_def)
    show ?thesis
    proof (cases "stepIdx \<in> executedSteps st")
      case True
      then show ?thesis
        using "1.IH"(1)[OF Cons True inv'] Cons by (simp add: run_loop.simps[of w cfg st])
    next
      case False
      show ?thesis
      proof (cases "stepIdx < 0 \<or> int ?n \<le> stepIdx")
        case True
        then show ?thesis
          using "1.IH"(2)[OF Cons False True inv'] Cons False
          by (simp add: run_loop.simps[of w cfg st])
      next
        case inb: False
        obtain thrown st' where r:
          "run_step w cfg stepIdx
             (st\<lparr>executionQueue := rest, executedSteps := insert stepIdx (executedSteps st)\<rparr>)
             = (thrown, st')"
          by (cases "run_step w cfg stepIdx
             (st\<lparr>executionQueue := rest, executedSteps := insert stepIdx (executedSteps st)\<rparr>)")
        have inv2: "scheduler_invariant ?n st'"
          using run_step_invariant[OF "1.prems" False _ _ r] inb by simp
        show ?thesis
        proof (cases thrown)
          case None
          then show ?thesis
            using "1.IH"(3)[OF Cons False inb r[symmetric] None inv2] Cons False inb r
            by (simp add: run_loop.simps[of w cfg st])
        next
          case (Some e)
          then show ?thesis
            using inv2 Cons False inb r by (simp add: run_loop.simps[of w cfg st])
        qed
      qed
    qed
  qed
qed

lemma initial_state_invariant:
  "scheduler_invariant n (initial_state cfg)"
  by (simp add: scheduler_invariant_def executed_indices_def initial_state_def)

lemma final_state_invariant:
  "scheduler_invariant (length (rc_normalizedInstructions cfg))
     (snd (run_loop w cfg (initial_state cfg)))"
  using run_loop_invariant[OF initial_state_invariant] by blast

section \<open>No index runs twice\<close>

text \<open>
  C1. Whatever the instructions are and whatever the world answers, the results stored
  when the scheduler's loop is left (normally or by a throw) belong to pairwise different
  instruction indices; so do the steps of the result that \<open>run\<close> returns. Cyclic
  \<open>ifTrue\<close>/\<open>ifFalse\<close> lists are instruction arrays like any other.
\<close>

theorem run_executes_each_index_once:
  "distinct (executed_indices (snd (run_loop w cfg (initial_state cfg))))
   \<and> (case run w env payload of
        Inl e \<Rightarrow> True
      | Inr res \<Rightarrow> distinct (map stepIndex (steps res)))"
proof
  show "distinct (executed_indices (snd (run_loop w cfg (initial_state cfg))))"
    using final_state_invariant[of cfg w] by (simp add: scheduler_invariant_def)
next
  show "case run w env payload of Inl e \<Rightarrow> True
        | Inr res \<Rightarrow> distinct (map stepIndex (steps res))"
  proof (cases "prepare env payload")
    case (Inl e)
    then show ?thesis by (simp add: run_def)
  next
    case (Inr c)
    have "distinct (executed_indices (snd (run_loop w c (initial_state c))))"
      using final_state_invariant[of c w] by (simp add: scheduler_invariant_def)
    then show ?thesis
      using Inr by (cases "run_loop w c (initial_state c)")
                   (auto simp: run_def executed_indices_def split: option.splits)
  qed
qed

theorem run_executes_each_index_once_witness:
  "run_trace (run true_world example_env cyclic_payload)
     = Some [(1, 0, BranchTrue), (2, 1, BranchTrue)]
   \<and> (case run true_world example_env cyclic_payload of
        Inl e \<Rightarrow> False
      | Inr res \<Rightarrow> distinct (map stepIndex (steps res)))"
proof -
  have t: "run_trace (run true_world example_env cyclic_payload)
             = Some [(1, 0, BranchTrue), (2, 1, BranchTrue)]"
    by code_simp
  from run_executes_each_index_once[of true_world cyclic_config example_env cyclic_payload] t
  show ?thesis
    by (auto simp: run_trace_def split: sum.splits)
qed

section \<open>The loop ends\<close>

lemma callLLM_not_thrown:
  assumes "\<And>t p k m s u. \<exists>a. w_callLLM w t p k m s u = Inr a"
  shows "callLLM w p k m s u rt = (Inl e, rt') \<Longrightarrow> False"
  using assms[of "rt_ticks rt" p k m s u] by (auto simp: callLLM_def)

lemma evaluateCondition_not_thrown:
  assumes "\<And>t p k m s u. \<exists>a. w_callLLM w t p k m s u = Inr a"
  shows "evaluateCondition w p k m e r n rt = (Inl x, rt') \<Longrightarrow> False"
  unfolding evaluateCondition_def Let_def
  by (auto split: prod.splits sum.splits if_splits dest: callLLM_not_thrown[OF assms])

lemma executeLLMStep_not_thrown:
  assumes "\<And>t p k m s u. \<exists>a. w_callLLM w t p k m s u = Inr a"
  shows "executeLLMStep w i ctx rt = (Inl x, rt') \<Longrightarrow> False"
  unfolding executeLLMStep_def Let_def
  by (auto split: prod.splits sum.splits if_splits dest: callLLM_not_thrown[OF assms])

lemma run_step_plain_no_throw:
  assumes total: "\<And>t p k m s u. \<exists>a. w_callLLM w t p k m s u = Inr a"
    and plain: "plain_llm (rc_normalizedInstructions cfg ! nat i)"
  shows "fst (run_step w cfg i st) = None"
proof -
  obtain ci where inst: "rc_normalizedInstructions cfg ! nat i = Conditional ci"
    using plain by (auto simp: plain_llm_def split: NormalizedInstruction.splits)
  have own: "\<And>c. ci_condition ci = Some c \<Longrightarrow> evaluateAfterStep c = None"
    using plain inst by (simp add: plain_llm_def)
  show ?thesis
    unfolding run_step_def Let_def inst
    by (auto simp: resultToEvaluate_def own split: prod.splits sum.splits option.splits
             dest: executeLLMStep_not_thrown[OF total] evaluateCondition_not_thrown[OF total])
qed

lemma run_loop_plain_no_throw:
  assumes "\<forall>t p k m s u. \<exists>a. w_callLLM w t p k m s u = Inr a"
    and "list_all plain_llm (rc_normalizedInstructions cfg)"
  shows "fst (run_loop w cfg st) = None"
  using assms
proof (induction w cfg st rule: run_loop.induct)
  case (1 w cfg st)
  note total = "1.prems"(1) and plain = "1.prems"(2)
  show ?case
  proof (cases "executionQueue st")
    case Nil
    then show ?thesis by (simp add: run_loop.simps[of w cfg st])
  next
    case (Cons stepIdx rest)
    show ?thesis
    proof (cases "stepIdx \<in> executedSteps st")
      case True
      then show ?thesis
        using "1.IH"(1)[OF Cons True total plain] Cons by (simp add: run_loop.simps[of w cfg st])
    next
      case False
      show ?thesis
      proof (cases "stepIdx < 0 \<or> int (length (rc_normalizedInstructions cfg)) \<le> stepIdx")
        case True
        then show ?thesis
          using "1.IH"(2)[OF Cons False True total plain] Cons False
          by (simp add: run_loop.simps[of w cfg st])
      next
        case inb: False
        obtain thrown st' where r:
          "run_step w cfg stepIdx
             (st\<lparr>executionQueue := rest, executedSteps := insert stepIdx (executedSteps st)\<rparr>)
             = (thrown, st')"
          by (cases "run_step w cfg stepIdx
             (st\<lparr>executionQueue := rest, executedSteps := insert stepIdx (executedSteps st)\<rparr>)")
        have "nat stepIdx < length (rc_normalizedInstructions cfg)"
          using inb by linarith
        then have "plain_llm (rc_normalizedInstructions cfg ! nat stepIdx)"
          using plain by (simp add: list_all_length)
        moreover have "\<And>t p k m s u. \<exists>a. w_callLLM w t p k m s u = Inr a"
          using total by blast
        ultimately have "fst (run_step w cfg stepIdx
             (st\<lparr>executionQueue := rest, executedSteps := insert stepIdx (executedSteps st)\<rparr>))
             = None"
          by (rule run_step_plain_no_throw[rotated])
        then have none: "thrown = None"
          using r by simp
        show ?thesis
          using "1.IH"(3)[OF Cons False inb r[symmetric] none total plain] Cons False inb r none
          by (simp add: run_loop.simps[of w cfg st])
      qed
    qed
  qed
qed

text \<open>
  C2. \<open>run_loop\<close> is a total function: its termination is proved where it is defined,
  from the number of in-range indices not yet executed and the length of the queue.
  Started on any instruction array in any world, it leaves the queue empty unless an
  error was thrown; it has marked at most as many indices executed as there are
  instructions, a pass dispatches only an index it marks, and no more results are
  stored than indices were marked. When the language model answers every call and the
  instructions are language-model steps whose conditions look at their own result,
  nothing is thrown, so the loop ends with the empty queue whatever the verdicts are.
\<close>

theorem run_loop_ends_with_empty_queue:
  "(fst (run_loop w cfg (initial_state cfg)) = None
      \<longrightarrow> executionQueue (snd (run_loop w cfg (initial_state cfg))) = [])
   \<and> card (executedSteps (snd (run_loop w cfg (initial_state cfg))))
       \<le> length (rc_normalizedInstructions cfg)
   \<and> length (steps (rt_currentResult (rs_runtime (snd (run_loop w cfg (initial_state cfg))))))
       \<le> card (executedSteps (snd (run_loop w cfg (initial_state cfg))))
   \<and> ((\<forall>t p k m s u. \<exists>a. w_callLLM w t p k m s u = Inr a)
        \<and> list_all plain_llm (rc_normalizedInstructions cfg)
      \<longrightarrow> fst (run_loop w cfg (initial_state cfg)) = None)"
proof -
  let ?n = "length (rc_normalizedInstructions cfg)"
  let ?st = "snd (run_loop w cfg (initial_state cfg))"
  have inv: "scheduler_invariant ?n ?st"
    by (rule final_state_invariant)
  have sub: "executedSteps ?st \<subseteq> {0..<int ?n}"
    using inv by (simp add: scheduler_invariant_def)
  then have fin: "finite (executedSteps ?st)"
    using finite_subset by blast
  have "card (executedSteps ?st) \<le> card {0..<int ?n}"
    using sub by (intro card_mono) auto
  then have bound: "card (executedSteps ?st) \<le> ?n" by simp
  have "card (set (executed_indices ?st)) \<le> card (executedSteps ?st)"
    using inv fin by (intro card_mono) (auto simp: scheduler_invariant_def)
  moreover have "card (set (executed_indices ?st)) = length (executed_indices ?st)"
    using inv by (simp add: scheduler_invariant_def distinct_card)
  ultimately have stored: "length (steps (rt_currentResult (rs_runtime ?st)))
                             \<le> card (executedSteps ?st)"
    by (simp add: executed_indices_def)
  have empty: "fst (run_loop w cfg (initial_state cfg)) = None \<longrightarrow> executionQueue ?st = []"
    using run_loop_invariant[OF initial_state_invariant] by blast
  have nothrow: "(\<forall>t p k m s u. \<exists>a. w_callLLM w t p k m s u = Inr a)
                 \<and> list_all plain_llm (rc_normalizedInstructions cfg)
               \<longrightarrow> fst (run_loop w cfg (initial_state cfg)) = None"
    using run_loop_plain_no_throw[of w cfg "initial_state cfg"] by blast
  show ?thesis
    using empty bound stored nothrow by blast
qed

theorem run_loop_ends_with_empty_queue_witness:
  "(\<forall>t p k m s u. \<exists>a. w_callLLM true_world t p k m s u = Inr a)
   \<and> list_all plain_llm (rc_normalizedInstructions cyclic_config)
   \<and> fst (run_loop true_world cyclic_config (initial_state cyclic_config)) = None
   \<and> executionQueue (snd (run_loop true_world cyclic_config (initial_state cyclic_config))) = []
   \<and> card (executedSteps (snd (run_loop true_world cyclic_config (initial_state cyclic_config))))
       \<le> 2"
proof -
  have a: "\<forall>t p k m s u. \<exists>a. w_callLLM true_world t p k m s u = Inr a"
    by (simp add: true_world_def oracle_world_def)
  have b: "list_all plain_llm (rc_normalizedInstructions cyclic_config)"
    by (simp add: cyclic_config_def cyclic_instructions_def normalizeInstruction_def plain_llm_def)
  have c: "length (rc_normalizedInstructions cyclic_config) = 2"
    by (simp add: cyclic_config_def cyclic_instructions_def)
  from run_loop_ends_with_empty_queue[of true_world cyclic_config] a b c
  show ?thesis by simp
qed

section \<open>What a pass puts on the queue\<close>

lemma branchTargetSteps_foldl:
  "foldl (\<lambda>acc inst.
            case condition_of inst of
              None \<Rightarrow> acc
            | Some c \<Rightarrow>
                (acc \<union> (case ifTrue c of None \<Rightarrow> {} | Some l \<Rightarrow> set l))
                  \<union> (case ifFalse c of None \<Rightarrow> {} | Some l \<Rightarrow> set l))
     acc ins
   = acc \<union> (\<Union>inst \<in> set ins. targets_of inst)"
  by (induction ins arbitrary: acc) (auto simp: targets_of_def split: option.splits)

lemma branchTargetSteps_targets:
  "branchTargetSteps ins = (\<Union>inst \<in> set ins. targets_of inst)"
  by (simp add: branchTargetSteps_def branchTargetSteps_foldl)

lemma prepare_branchTargetSteps:
  "prepare env payload = Inr cfg
     \<Longrightarrow> rc_branchTargetSteps cfg = branchTargetSteps (rc_normalizedInstructions cfg)"
  by (auto simp: prepare_def Let_def split: if_splits)

lemma run_step_unconditioned_queue:
  assumes "condition_of (rc_normalizedInstructions cfg ! nat i) = None"
  shows "executionQueue (snd (run_step w cfg i st))
           = (if fst (run_step w cfg i st) = None \<and> i \<notin> rc_branchTargetSteps cfg
                 \<and> i + 1 < int (length (rc_normalizedInstructions cfg))
              then executionQueue st @ [i + 1]
              else executionQueue st)"
  using assms unfolding run_step_def Let_def
  by (simp add: pushNext_def split: prod.split sum.split)

text \<open>
  C3. Take the configuration that \<open>run\<close> computes from a payload: its branch targets are
  exactly the indices that some instruction lists in \<open>ifTrue\<close> or \<open>ifFalse\<close>. When a
  pass of the loop runs an instruction without a condition at index \<open>i\<close>, the queue
  afterwards is the queue before with \<open>i + 1\<close> appended if the step was stored,
  \<open>i\<close> is not a branch target and \<open>i + 1\<close> is inside the array, and otherwise it is
  the queue before. In particular nothing is enqueued when \<open>i\<close> is a branch target.
\<close>

theorem unconditioned_branch_target_does_not_fall_through:
  assumes "prepare env payload = Inr cfg"
    and "0 \<le> i" and "i < int (length (rc_normalizedInstructions cfg))"
    and "condition_of (rc_normalizedInstructions cfg ! nat i) = None"
  shows "(i \<in> rc_branchTargetSteps cfg
            \<longleftrightarrow> (\<exists>inst \<in> set (rc_normalizedInstructions cfg). i \<in> targets_of inst))
         \<and> executionQueue (snd (run_step w cfg i st))
             = (if fst (run_step w cfg i st) = None \<and> i \<notin> rc_branchTargetSteps cfg
                   \<and> i + 1 < int (length (rc_normalizedInstructions cfg))
                then executionQueue st @ [i + 1]
                else executionQueue st)
         \<and> (i \<in> rc_branchTargetSteps cfg
              \<longrightarrow> executionQueue (snd (run_step w cfg i st)) = executionQueue st)"
  using prepare_branchTargetSteps[OF assms(1)] run_step_unconditioned_queue[OF assms(4), of w st]
  by (simp add: branchTargetSteps_targets)

theorem unconditioned_branch_target_does_not_fall_through_witness:
  "prepare example_env exampleA_payload = Inr exampleA_config
   \<and> (0::int) \<le> 2
   \<and> 2 < int (length (rc_normalizedInstructions exampleA_config))
   \<and> condition_of (rc_normalizedInstructions exampleA_config ! nat 2) = None
   \<and> 2 \<in> rc_branchTargetSteps exampleA_config
   \<and> fst (run_step true_world exampleA_config 2 (state_at exampleA_config 2)) = None
   \<and> executionQueue (snd (run_step true_world exampleA_config 2 (state_at exampleA_config 2)))
       = executionQueue (state_at exampleA_config 2)
   \<and> executionQueue (snd (run_step true_world exampleA_config 0 (state_at exampleA_config 0)))
       = executionQueue (state_at exampleA_config 0) @ [1]"
proof -
  have p: "prepare example_env exampleA_payload = Inr exampleA_config"
    by (simp add: prepare_def example_env_def exampleA_payload_def exampleA_config_def
          exampleA_instructions_def truthy_string_def string_or_def branchTargetSteps_def
          normalizeInstruction_def insert_commute)
  have len: "2 < int (length (rc_normalizedInstructions exampleA_config))"
    by (simp add: exampleA_config_def exampleA_instructions_def)
  have len0: "0 < int (length (rc_normalizedInstructions exampleA_config))"
    by (simp add: exampleA_config_def exampleA_instructions_def)
  have c2: "condition_of (rc_normalizedInstructions exampleA_config ! nat 2) = None"
    by (simp add: exampleA_config_def exampleA_instructions_def normalizeInstruction_def)
  have c0: "condition_of (rc_normalizedInstructions exampleA_config ! nat 0) = None"
    by (simp add: exampleA_config_def exampleA_instructions_def normalizeInstruction_def)
  have t: "2 \<in> rc_branchTargetSteps exampleA_config" "0 \<notin> rc_branchTargetSteps exampleA_config"
    by (simp_all add: exampleA_config_def)
  have ok2: "fst (run_step true_world exampleA_config 2 (state_at exampleA_config 2)) = None"
    by code_simp
  have ok0: "fst (run_step true_world exampleA_config 0 (state_at exampleA_config 0)) = None"
    by code_simp
  from unconditioned_branch_target_does_not_fall_through
         [OF p _ len c2, of true_world "state_at exampleA_config 2"]
       unconditioned_branch_target_does_not_fall_through
         [OF p _ len0 c0, of true_world "state_at exampleA_config 0"]
       p len c2 t ok2 ok0
  show ?thesis by simp
qed

lemma run_step_conditioned_queue:
  assumes "condition_of (rc_normalizedInstructions cfg ! nat i) = Some c"
    and "fst (run_step w cfg i st) = None"
  shows "\<exists>v. conditionResult (last (steps (rt_currentResult (rs_runtime (snd (run_step w cfg i st))))))
               = Some v
            \<and> executionQueue (snd (run_step w cfg i st))
                = pushBranch c v i (length (rc_normalizedInstructions cfg)) (executionQueue st)"
  using assms unfolding run_step_def Let_def
  by (auto split: prod.splits sum.splits)

text \<open>
  C10. The suppression of C3 is written only in the branch of the loop body for
  instructions without a condition. When a pass runs an instruction with a condition at
  index \<open>i\<close>, stores its result with the verdict \<open>v\<close>, and the list for that verdict
  (\<open>ifTrue\<close> for true, \<open>ifFalse\<close> for false) is absent or empty, the queue afterwards is
  the queue before with \<open>i + 1\<close> appended if \<open>i + 1\<close> is inside the array. Nothing is
  assumed about the branch targets, so this holds when \<open>i\<close> is one of them.
\<close>

theorem conditioned_step_falls_through_without_branch_list:
  assumes "condition_of (rc_normalizedInstructions cfg ! nat i) = Some c"
    and "fst (run_step w cfg i st) = None"
    and "conditionResult (last (steps (rt_currentResult (rs_runtime (snd (run_step w cfg i st))))))
           = Some v"
    and "(if v then ifTrue c else ifFalse c) = None \<or> (if v then ifTrue c else ifFalse c) = Some []"
  shows "executionQueue (snd (run_step w cfg i st))
           = (if i + 1 < int (length (rc_normalizedInstructions cfg))
              then executionQueue st @ [i + 1]
              else executionQueue st)"
proof -
  from run_step_conditioned_queue[OF assms(1,2)] assms(3)
  have "executionQueue (snd (run_step w cfg i st))
          = pushBranch c v i (length (rc_normalizedInstructions cfg)) (executionQueue st)"
    by auto
  then show ?thesis
    using assms(4) by (auto simp: pushBranch_def pushNext_def split: if_splits)
qed

theorem conditioned_step_falls_through_without_branch_list_witness:
  "condition_of (rc_normalizedInstructions chain_config ! nat 1)
     = Some \<lparr>evaluateAfterStep = None, expression = ''goes on'', ifTrue = None, ifFalse = Some []\<rparr>
   \<and> 1 \<in> rc_branchTargetSteps chain_config
   \<and> fst (run_step true_world chain_config 1 (state_at chain_config 1)) = None
   \<and> conditionResult (last (steps (rt_currentResult (rs_runtime
         (snd (run_step true_world chain_config 1 (state_at chain_config 1)))))))
       = Some True
   \<and> executionQueue (snd (run_step true_world chain_config 1 (state_at chain_config 1)))
       = executionQueue (state_at chain_config 1) @ [2]"
proof -
  have c: "condition_of (rc_normalizedInstructions chain_config ! nat 1)
             = Some \<lparr>evaluateAfterStep = None, expression = ''goes on'', ifTrue = None,
                     ifFalse = Some []\<rparr>"
    by (simp add: chain_config_def chain_instructions_def normalizeInstruction_def)
  have t: "1 \<in> rc_branchTargetSteps chain_config"
    by (simp add: chain_config_def)
  have ok: "fst (run_step true_world chain_config 1 (state_at chain_config 1)) = None"
    by code_simp
  have v: "conditionResult (last (steps (rt_currentResult (rs_runtime
             (snd (run_step true_world chain_config 1 (state_at chain_config 1)))))))
           = Some True"
    by code_simp
  have len: "length (rc_normalizedInstructions chain_config) = 3"
    by (simp add: chain_config_def chain_instructions_def)
  from conditioned_step_falls_through_without_branch_list[OF c ok v] c t ok v len
  show ?thesis by simp
qed

section \<open>Example A\<close>

lemma true_is_a_true_verdict:
  "str_includes (toLowerCase (trim ''true'')) ''true''"
  "\<not> str_includes (toLowerCase (trim ''true'')) ''false''"
  by (simp_all add: toLowerCase_def toLowerCase_char_def trim_def isWhiteSpace_def)

text \<open>
  C6, as the code has it. In Example A, when every call of the language model is
  answered and the condition evaluation is answered \<open>true\<close>, the run stores three
  results: step 1 for index 0, step 2 for index 1 with the branch \<open>true\<close>, step 3 for
  index 2. Index 3 has no result.
\<close>

theorem exampleA_true_answer_takes_true_branch:
  assumes llm: "\<And>t p k m s u. w_callLLM w t p k m s u = Inr (answer t s u)"
    and verdict: "\<And>t u. answer t condition_systemPrompt u = ''true''"
  shows "run_trace (run w example_env exampleA_payload)
           = Some [(1, 0, Sequential), (2, 1, BranchTrue), (3, 2, Sequential)]"
  by (simp add: run_trace_def run_def prepare_def initial_state_def run_loop.simps run_step_def
        executeLLMStep_def callLLM_def evaluateCondition_def Let_def nat_toString.simps
        number_toString_def normalizeInstruction_def branchTargetSteps_def truthy_string_def
        string_or_def pushBranch_def pushNext_def pushStep_def addLog_def resultToEvaluate_def
        console_warn_def example_env_def exampleA_payload_def exampleA_instructions_def
        llm verdict true_is_a_true_verdict)

theorem exampleA_true_answer_takes_true_branch_witness:
  "(\<forall>t p k m s u. w_callLLM true_world t p k m s u
        = Inr ((\<lambda>t s u. if s = condition_systemPrompt then ''true'' else ''ok'') t s u))
   \<and> (\<forall>t u. (\<lambda>t s u. if s = condition_systemPrompt then ''true'' else ''ok'')
               t condition_systemPrompt u = ''true'')
   \<and> run_trace (run true_world example_env exampleA_payload)
       = Some [(1, 0, Sequential), (2, 1, BranchTrue), (3, 2, Sequential)]"
  using exampleA_true_answer_takes_true_branch
          [of true_world "\<lambda>t s u. if s = condition_systemPrompt then ''true'' else ''ok''"]
  by (simp add: true_world_def oracle_world_def)

text \<open>
  The claim as the specification words it, with the Oracle answering \<open>yes\<close>, fails: the
  text \<open>yes\<close> contains neither \<open>true\<close> nor \<open>false\<close>, the verdict is false, and the run
  goes to index 3 instead of index 2.
\<close>

theorem exampleA_yes_answer_counterexample:
  "w_callLLM yes_world 2 OpenAI ''sk-test'' ''gpt-5-nano'' condition_systemPrompt
       (condition_userPrompt ''contains YES'' ''ok'' 2) = Inr ''yes''
   \<and> run_trace (run yes_world example_env exampleA_payload)
       = Some [(1, 0, Sequential), (2, 1, BranchFalse), (3, 3, Sequential)]
   \<and> run_trace (run yes_world example_env exampleA_payload)
       \<noteq> Some [(1, 0, Sequential), (2, 1, BranchTrue), (3, 2, Sequential)]"
  by code_simp

section \<open>Router: which option is chosen\<close>

lemma str_includes_Nil [simp]: "str_includes s []"
  by (cases s) simp_all

lemma toLowerCase_Nil [simp]: "toLowerCase [] = []"
  by (simp add: toLowerCase_def)

lemma find_None_set: "find P xs = None \<longleftrightarrow> (\<forall>x \<in> set xs. \<not> P x)"
  by (induction xs) auto

lemma find_Some_set: "\<exists>x \<in> set xs. P x \<Longrightarrow> \<exists>y. find P xs = Some y \<and> y \<in> set xs \<and> P y"
  by (induction xs) auto

text \<open>
  C7. Let the router have at least one option and let \<open>cleaned\<close> be the Oracle's answer
  trimmed, lowercased and stripped of quotes. If some option's lowercased id equals
  \<open>cleaned\<close>, the first such option is chosen. Otherwise, if \<open>cleaned\<close> contains some
  option's lowercased id or is contained in it, the first such option is chosen.
  Otherwise, if \<open>defaultOption\<close> is the id of a declared option, the first option with
  that id is chosen. Otherwise the first declared option is chosen. An option is always
  chosen, and it is a declared one.
\<close>

theorem router_resolves_exact_partial_default_first:
  assumes "ri_options instr \<noteq> []"
  shows
    "((\<exists>opt \<in> set (ri_options instr).
         toLowerCase (opt_id opt) = stripQuotes (toLowerCase (trim answer)))
       \<longrightarrow> fst (resolveRouterOption instr answer stepNo rt)
            = find (\<lambda>opt. toLowerCase (opt_id opt) = stripQuotes (toLowerCase (trim answer)))
                (ri_options instr))
     \<and> (\<not> (\<exists>opt \<in> set (ri_options instr).
              toLowerCase (opt_id opt) = stripQuotes (toLowerCase (trim answer)))
        \<and> (\<exists>opt \<in> set (ri_options instr).
              str_includes (stripQuotes (toLowerCase (trim answer))) (toLowerCase (opt_id opt))
              \<or> str_includes (toLowerCase (opt_id opt)) (stripQuotes (toLowerCase (trim answer))))
       \<longrightarrow> fst (resolveRouterOption instr answer stepNo rt)
            = find (\<lambda>opt. str_includes (stripQuotes (toLowerCase (trim answer)))
                             (toLowerCase (opt_id opt))
                           \<or> str_includes (toLowerCase (opt_id opt))
                                (stripQuotes (toLowerCase (trim answer))))
                (ri_options instr))
     \<and> (\<not> (\<exists>opt \<in> set (ri_options instr).
              str_includes (stripQuotes (toLowerCase (trim answer))) (toLowerCase (opt_id opt))
              \<or> str_includes (toLowerCase (opt_id opt)) (stripQuotes (toLowerCase (trim answer))))
        \<and> (\<exists>opt \<in> set (ri_options instr). ri_defaultOption instr = Some (opt_id opt))
       \<longrightarrow> fst (resolveRouterOption instr answer stepNo rt)
            = find (\<lambda>opt. ri_defaultOption instr = Some (opt_id opt)) (ri_options instr))
     \<and> (\<not> (\<exists>opt \<in> set (ri_options instr).
              str_includes (stripQuotes (toLowerCase (trim answer))) (toLowerCase (opt_id opt))
              \<or> str_includes (toLowerCase (opt_id opt)) (stripQuotes (toLowerCase (trim answer))))
        \<and> \<not> (\<exists>opt \<in> set (ri_options instr). ri_defaultOption instr = Some (opt_id opt))
       \<longrightarrow> fst (resolveRouterOption instr answer stepNo rt) = Some (hd (ri_options instr)))
     \<and> (\<exists>opt \<in> set (ri_options instr).
          fst (resolveRouterOption instr answer stepNo rt) = Some opt)"
proof -
  let ?cleaned = "stripQuotes (toLowerCase (trim answer))"
  let ?exact = "\<lambda>opt. toLowerCase (opt_id opt) = ?cleaned"
  let ?partial = "\<lambda>opt. str_includes ?cleaned (toLowerCase (opt_id opt))
                         \<or> str_includes (toLowerCase (opt_id opt)) ?cleaned"
  let ?default = "\<lambda>opt. ri_defaultOption instr = Some (opt_id opt)"
  let ?opts = "ri_options instr"
  let ?sel = "fst (resolveRouterOption instr answer stepNo rt)"
  have exact_partial: "\<And>opt. ?exact opt \<Longrightarrow> ?partial opt"
  proof -
    fix opt assume "?exact opt"
    then have "str_includes ?cleaned (toLowerCase (opt_id opt))"
      by (cases ?cleaned) (simp_all add: str_includes_sublist)
    then show "?partial opt" by simp
  qed
  have first: "first_option ?opts = Some (hd ?opts)"
    using assms by (cases ?opts) (simp_all add: first_option_def)
  have hd_in: "hd ?opts \<in> set ?opts"
    using assms by simp
  have A: "(\<exists>opt \<in> set ?opts. ?exact opt) \<longrightarrow> ?sel = find ?exact ?opts"
  proof
    assume "\<exists>opt \<in> set ?opts. ?exact opt"
    then obtain y where "find ?exact ?opts = Some y"
      using find_Some_set[of ?opts ?exact] by blast
    then show "?sel = find ?exact ?opts"
      by (simp add: resolveRouterOption_def Let_def)
  qed
  have B: "\<not> (\<exists>opt \<in> set ?opts. ?exact opt) \<and> (\<exists>opt \<in> set ?opts. ?partial opt)
             \<longrightarrow> ?sel = find ?partial ?opts"
  proof
    assume h: "\<not> (\<exists>opt \<in> set ?opts. ?exact opt) \<and> (\<exists>opt \<in> set ?opts. ?partial opt)"
    then have n: "find ?exact ?opts = None"
      by (simp add: find_None_set)
    from h obtain y where "find ?partial ?opts = Some y"
      using find_Some_set[of ?opts ?partial] by blast
    then show "?sel = find ?partial ?opts"
      using n by (simp add: resolveRouterOption_def Let_def)
  qed
  have none: "\<not> (\<exists>opt \<in> set ?opts. ?partial opt)
                \<Longrightarrow> find ?exact ?opts = None \<and> find ?partial ?opts = None"
    using exact_partial by (auto simp: find_None_set)
  have C: "\<not> (\<exists>opt \<in> set ?opts. ?partial opt) \<and> (\<exists>opt \<in> set ?opts. ?default opt)
             \<longrightarrow> ?sel = find ?default ?opts"
  proof
    assume h: "\<not> (\<exists>opt \<in> set ?opts. ?partial opt) \<and> (\<exists>opt \<in> set ?opts. ?default opt)"
    then obtain d where d: "ri_defaultOption instr = Some d" and din: "\<exists>opt \<in> set ?opts. opt_id opt = d"
      by auto
    have "d \<noteq> []"
    proof
      assume "d = []"
      with din obtain opt where "opt \<in> set ?opts" "opt_id opt = []" by auto
      then have "?partial opt" by simp
      with h \<open>opt \<in> set ?opts\<close> show False by blast
    qed
    moreover obtain y where y: "find (\<lambda>opt. opt_id opt = d) ?opts = Some y"
      using find_Some_set[of ?opts "\<lambda>opt. opt_id opt = d"] din by blast
    moreover have "find ?default ?opts = find (\<lambda>opt. opt_id opt = d) ?opts"
      using d by (auto intro: arg_cong2[where f = find])
    ultimately show "?sel = find ?default ?opts"
      using none[of] h d by (simp add: resolveRouterOption_def Let_def)
  qed
  have D: "\<not> (\<exists>opt \<in> set ?opts. ?partial opt) \<and> \<not> (\<exists>opt \<in> set ?opts. ?default opt)
             \<longrightarrow> ?sel = Some (hd ?opts)"
  proof
    assume h: "\<not> (\<exists>opt \<in> set ?opts. ?partial opt) \<and> \<not> (\<exists>opt \<in> set ?opts. ?default opt)"
    have "\<And>d. ri_defaultOption instr = Some d \<Longrightarrow> find (\<lambda>opt. opt_id opt = d) ?opts = None"
      using h by (auto simp: find_None_set)
    then show "?sel = Some (hd ?opts)"
      using none h first
      by (auto simp: resolveRouterOption_def Let_def split: option.splits)
  qed
  have E: "\<exists>opt \<in> set ?opts. ?sel = Some opt"
  proof (cases "\<exists>opt \<in> set ?opts. ?exact opt")
    case True
    then show ?thesis using A find_Some_set[of ?opts ?exact] by auto
  next
    case nex: False
    show ?thesis
    proof (cases "\<exists>opt \<in> set ?opts. ?partial opt")
      case True
      then show ?thesis using B nex find_Some_set[of ?opts ?partial] by auto
    next
      case npa: False
      show ?thesis
      proof (cases "\<exists>opt \<in> set ?opts. ?default opt")
        case True
        then show ?thesis using C npa find_Some_set[of ?opts ?default] by auto
      next
        case False
        then show ?thesis using D npa hd_in by auto
      qed
    qed
  qed
  show ?thesis
    using A B C D E by blast
qed

theorem router_resolves_exact_partial_default_first_witness:
  "ri_options (router_example (Some ''news'')) \<noteq> []
   \<and> fst (resolveRouterOption (router_example (Some ''news'')) ('' '' @ dq @ ''WEATHER'' @ dq)
            1 empty_runtime) = Some weather_option
   \<and> fst (resolveRouterOption (router_example (Some ''news'')) ''the weather report''
            1 empty_runtime) = Some weather_option
   \<and> fst (resolveRouterOption (router_example (Some ''news'')) ''sports'' 1 empty_runtime)
       = Some news_option
   \<and> fst (resolveRouterOption (router_example (Some ''stocks'')) ''sports'' 1 empty_runtime)
       = Some weather_option
   \<and> fst (resolveRouterOption (router_example None) ''sports'' 1 empty_runtime)
       = Some weather_option"
proof -
  have ne: "ri_options (router_example (Some ''news'')) \<noteq> []"
    by (simp add: router_example_def)
  have ex: "fst (resolveRouterOption (router_example (Some ''news''))
                   ('' '' @ dq @ ''WEATHER'' @ dq) 1 empty_runtime) = Some weather_option"
    by code_simp
  have pa: "fst (resolveRouterOption (router_example (Some ''news'')) ''the weather report''
                   1 empty_runtime) = Some weather_option"
    by code_simp
  have de: "fst (resolveRouterOption (router_example (Some ''news'')) ''sports'' 1 empty_runtime)
              = Some news_option"
    by code_simp
  have bad: "fst (resolveRouterOption (router_example (Some ''stocks'')) ''sports'' 1
                    empty_runtime) = Some weather_option"
    by code_simp
  have fi: "fst (resolveRouterOption (router_example None) ''sports'' 1 empty_runtime)
              = Some weather_option"
    by code_simp
  from router_resolves_exact_partial_default_first[OF ne, of "''sports''" 1 empty_runtime]
       ne ex pa de bad fi
  show ?thesis by simp
qed

section \<open>Thread: missing steps\<close>

lemma collectResults_missing:
  "snd (collectResults produced ns)
     = filter (\<lambda>n. n \<notin> set (map stepNumber produced)) ns"
proof (induction ns)
  case Nil
  then show ?case by simp
next
  case (Cons n ns)
  have "find (\<lambda>s. stepNumber s = n) produced = None \<longleftrightarrow> n \<notin> set (map stepNumber produced)"
    by (auto simp: find_None_set)
  then show ?case
    using Cons by (auto split: prod.splits option.splits)
qed

lemma collectResults_collected:
  "fst (collectResults produced ns)
     = List.map_filter
         (\<lambda>n. map_option collected_of (find (\<lambda>s. stepNumber s = n) produced)) ns"
  by (induction ns)
     (auto simp: List.map_filter_simps collected_of_def split: prod.splits option.splits)

lemma find_Some_holds: "find P xs = Some x \<Longrightarrow> P x \<and> x \<in> set xs"
  by (induction xs) (auto split: if_splits)

lemma collectResults_complete:
  assumes "snd (collectResults produced ns) = []"
  shows "map col_stepNumber (fst (collectResults produced ns)) = ns"
  using assms
proof (induction ns)
  case Nil
  then show ?case by simp
next
  case (Cons n ns)
  then show ?case
    by (auto split: prod.splits option.splits dest: find_Some_holds)
qed

text \<open>
  C8. Let the thread's completion check be absent or in mode \<open>deterministic\<close>, and let
  \<open>missing\<close> be the requested step numbers, in the order requested, that no stored
  result carries. If \<open>missing\<close> is not empty the step throws, and the message names
  exactly the numbers of \<open>missing\<close>, separated by commas. If it is empty the step
  returns its description and the formatted results, one per requested number and in
  that order, each taken from the first stored result with that number. The language
  model is not called either way.
\<close>

theorem thread_deterministic_missing_steps:
  assumes "ti_completionCheck instr = None
           \<or> (\<exists>cc. ti_completionCheck instr = Some cc \<and> cc_mode cc = ''deterministic'')"
  shows
    "(filter (\<lambda>n. n \<notin> set (map stepNumber (steps (rt_currentResult rt))))
        (ti_collectFromSteps instr) \<noteq> []
       \<longrightarrow> executeThreadStep w instr ctx rt
            = (Inl (Error (''Thread incomplete: missing results from steps ''
                           @ join '', ''
                               (map number_toString
                                  (filter (\<lambda>n. n \<notin> set (map stepNumber (steps (rt_currentResult rt))))
                                     (ti_collectFromSteps instr)))
                           @ ''. Ensure these steps execute before this thread step.'')),
               rt))
     \<and> (filter (\<lambda>n. n \<notin> set (map stepNumber (steps (rt_currentResult rt))))
          (ti_collectFromSteps instr) = []
       \<longrightarrow> executeThreadStep w instr ctx rt
            = (Inr (string_or (ti_description instr)
                      (''Collect results from steps: ''
                       @ join '', '' (map number_toString (ti_collectFromSteps instr))),
                    formatCollected instr
                      (List.map_filter
                         (\<lambda>n. map_option collected_of
                                 (find (\<lambda>s. stepNumber s = n) (steps (rt_currentResult rt))))
                         (ti_collectFromSteps instr))),
               rt)
          \<and> map col_stepNumber
                (List.map_filter
                   (\<lambda>n. map_option collected_of
                           (find (\<lambda>s. stepNumber s = n) (steps (rt_currentResult rt))))
                   (ti_collectFromSteps instr))
              = ti_collectFromSteps instr)"
proof -
  let ?produced = "steps (rt_currentResult rt)"
  let ?ns = "ti_collectFromSteps instr"
  obtain collected missing where cr: "collectResults ?produced ?ns = (collected, missing)"
    by (cases "collectResults ?produced ?ns")
  have m: "missing = filter (\<lambda>n. n \<notin> set (map stepNumber ?produced)) ?ns"
    using collectResults_missing[of ?produced ?ns] cr by simp
  have c: "collected = List.map_filter
             (\<lambda>n. map_option collected_of (find (\<lambda>s. stepNumber s = n) ?produced)) ?ns"
    using collectResults_collected[of ?produced ?ns] cr by simp
  have full: "missing = [] \<Longrightarrow> map col_stepNumber collected = ?ns"
    using collectResults_complete[of ?produced ?ns] cr by simp
  have run: "executeThreadStep w instr ctx rt
               = (if missing \<noteq> []
                  then (Inl (Error (thread_incomplete_message missing)), rt)
                  else (Inr (string_or (ti_description instr)
                               (''Collect results from steps: ''
                                @ join '', '' (map number_toString ?ns)),
                             formatCollected instr collected), rt))"
    using assms cr by (auto simp: executeThreadStep_def Let_def)
  show ?thesis
    using run full unfolding m[symmetric] c[symmetric]
    by (simp add: thread_incomplete_message_def)
qed

theorem thread_deterministic_missing_steps_witness:
  "(ti_completionCheck (thread_example [1, 2, 3] (Some ''numbered'')) = None
    \<or> (\<exists>cc. ti_completionCheck (thread_example [1, 2, 3] (Some ''numbered'')) = Some cc
            \<and> cc_mode cc = ''deterministic''))
   \<and> fst (executeThreadStep none_world (thread_example [1, 2, 3] (Some ''numbered''))
            third_step_context two_steps_runtime)
       = Inl (Error ''Thread incomplete: missing results from steps 3. Ensure these steps execute before this thread step.'')
   \<and> fst (executeThreadStep none_world (thread_example [1, 2] (Some ''numbered''))
            third_step_context two_steps_runtime)
       = Inr (''Collect results from steps: 1, 2'',
              ''1. [Step 1] A'' @ nl @ nl @ ''2. [Step 2] B'')"
proof -
  have a: "ti_completionCheck (thread_example [1, 2, 3] (Some ''numbered'')) = None"
    by (simp add: thread_example_def)
  have b: "filter (\<lambda>n. n \<notin> set (map stepNumber (steps (rt_currentResult two_steps_runtime))))
             (ti_collectFromSteps (thread_example [1, 2, 3] (Some ''numbered''))) = [3]"
    by (simp add: thread_example_def two_steps_runtime_def)
  have c: "fst (executeThreadStep none_world (thread_example [1, 2] (Some ''numbered''))
                  third_step_context two_steps_runtime)
             = Inr (''Collect results from steps: 1, 2'',
                    ''1. [Step 1] A'' @ nl @ nl @ ''2. [Step 2] B'')"
    by code_simp
  from thread_deterministic_missing_steps
         [of "thread_example [1, 2, 3] (Some ''numbered'')" two_steps_runtime none_world
             third_step_context]
       a b c
  show ?thesis
    by (simp add: number_toString_def nat_toString.simps)
qed

section \<open>Agent: no tool needed, fallback \<open>skip\<close>\<close>

lemma addLog_ticks [simp]: "rt_ticks (addLog level message stepNo rt) = rt_ticks rt"
  by (simp add: addLog_def)

text \<open>
  C9, as the code has it. When the Oracle's decision, cleaned, is the no-tool choice and
  \<open>fallbackBehavior\<close> is \<open>skip\<close>, the step returns without any further call. Its result
  text is not the previous result itself: it is the JSON text, indented by two spaces, of
  an object with the field \<open>agentDecision\<close> (no selected tool, the reason, the Oracle's
  trimmed answer) and the field \<open>data\<close>, which holds the previous result unchanged.
\<close>

theorem agent_skip_wraps_previous_result:
  assumes "w_callLLM w (rt_ticks rt) (ctx_provider ctx) (ctx_apiKey ctx) (ctx_model ctx)
             agent_systemPrompt (agent_decisionPrompt instr ctx) = Inr decision"
    and "needsNoTool (stripQuotes (toLowerCase (trim decision)))"
    and "ai_fallbackBehavior instr = ''skip''"
  shows "fst (executeAgentStep w instr ctx rt)
           = Inr (string_or (Some (ai_description instr)) (''Agent: '' @ ai_decisionPrompt instr),
                  JSON_stringify2
                    (JObj [(''agentDecision'',
                            JObj [(''selectedTool'', JNull),
                                  (''reason'', JStr ''No external data needed''),
                                  (''llmResponse'', JStr (trim decision))]),
                           (''data'', JStr (ctx_previousResult ctx))]))
         \<and> rt_ticks (snd (executeAgentStep w instr ctx rt)) = Suc (rt_ticks rt)"
  using assms
  by (simp add: executeAgentStep_def callLLM_def Let_def)

theorem agent_skip_wraps_previous_result_witness:
  "w_callLLM none_world (rt_ticks two_steps_runtime) (ctx_provider third_step_context)
       (ctx_apiKey third_step_context) (ctx_model third_step_context)
       agent_systemPrompt (agent_decisionPrompt agent_example third_step_context) = Inr ''none''
   \<and> needsNoTool (stripQuotes (toLowerCase (trim ''none'')))
   \<and> ai_fallbackBehavior agent_example = ''skip''
   \<and> fst (executeAgentStep none_world agent_example third_step_context two_steps_runtime)
       = Inr (''decide'',
              JSON_stringify2
                (JObj [(''agentDecision'',
                        JObj [(''selectedTool'', JNull),
                              (''reason'', JStr ''No external data needed''),
                              (''llmResponse'', JStr ''none'')]),
                       (''data'', JStr ''B'')]))"
proof -
  have a: "w_callLLM none_world (rt_ticks two_steps_runtime) (ctx_provider third_step_context)
             (ctx_apiKey third_step_context) (ctx_model third_step_context)
             agent_systemPrompt (agent_decisionPrompt agent_example third_step_context)
           = Inr ''none''"
    by (simp add: none_world_def oracle_world_def)
  have b: "needsNoTool (stripQuotes (toLowerCase (trim ''none'')))"
    by code_simp
  have c: "ai_fallbackBehavior agent_example = ''skip''"
    by (simp add: agent_example_def)
  have t: "trim ''none'' = ''none''"
    by code_simp
  from agent_skip_wraps_previous_result[OF a b c] a b c t
  show ?thesis
    by (simp add: agent_example_def third_step_context_def string_or_def)
qed

text \<open>
  The claim as the specification words it fails: with the previous result \<open>B\<close>, the
  result text of the step is a JSON document and not \<open>B\<close>.
\<close>

theorem agent_skip_result_is_not_previous_result_counterexample:
  "needsNoTool (stripQuotes (toLowerCase (trim ''none'')))
   \<and> ai_fallbackBehavior agent_example = ''skip''
   \<and> ctx_previousResult third_step_context = ''B''
   \<and> resultText (executeAgentStep none_world agent_example third_step_context two_steps_runtime)
       \<noteq> Some ''B''
   \<and> resultText (executeAgentStep none_world agent_example third_step_context two_steps_runtime)
       = Some (JSON_stringify2
                 (JObj [(''agentDecision'',
                         JObj [(''selectedTool'', JNull),
                               (''reason'', JStr ''No external data needed''),
                               (''llmResponse'', JStr ''none'')]),
                        (''data'', JStr ''B'')]))"
  by code_simp

section \<open>Submission: what is checked before a workflow is created\<close>

lemma validateInstruction_SomeD:
  assumes "validateInstruction n i inst = Some msg"
  shows "\<exists>obj cond branch idx.
           inst = Inr obj \<and> wo_condition obj = Some cond
           \<and> msg = out_of_bounds_message i branch idx \<and> outOfBounds n idx
           \<and> ((branch = ''ifTrue'' \<and> idx \<in> set (ifTrue_list cond))
              \<or> (branch = ''ifFalse'' \<and> idx \<in> set (ifFalse_list cond)))"
  using assms unfolding validateInstruction_def ifTrue_list_def ifFalse_list_def
  by (auto split: sum.splits option.splits dest!: find_Some_holds)

lemma validateInstruction_offending:
  assumes "wo_condition obj = Some cond"
    and "idx \<in> set (ifTrue_list cond) \<union> set (ifFalse_list cond)"
    and "outOfBounds n idx"
  shows "validateInstruction n i (Inr obj) \<noteq> None"
  using assms unfolding validateInstruction_def ifTrue_list_def ifFalse_list_def
  by (auto simp: find_None_set split: option.splits)

lemma validateFrom_first:
  assumes "j < length insts" and "validateInstruction n (i + j) (insts ! j) \<noteq> None"
  shows "\<exists>k \<le> j. validateFrom n i insts = validateInstruction n (i + k) (insts ! k)
                 \<and> validateInstruction n (i + k) (insts ! k) \<noteq> None"
  using assms
proof (induction insts arbitrary: i j)
  case Nil
  then show ?case by simp
next
  case (Cons inst insts)
  show ?case
  proof (cases "validateInstruction n i inst")
    case (Some err)
    then have "validateFrom n i (inst # insts) = validateInstruction n (i + 0) ((inst # insts) ! 0)
               \<and> validateInstruction n (i + 0) ((inst # insts) ! 0) \<noteq> None"
      by simp
    then show ?thesis by blast
  next
    case None
    then obtain j' where j': "j = Suc j'"
      using Cons.prems by (cases j) auto
    then have "j' < length insts" "validateInstruction n (Suc i + j') (insts ! j') \<noteq> None"
      using Cons.prems by simp_all
    from Cons.IH[OF this] obtain k where
      k: "k \<le> j'" "validateFrom n (Suc i) insts = validateInstruction n (Suc i + k) (insts ! k)"
         "validateInstruction n (Suc i + k) (insts ! k) \<noteq> None"
      by blast
    then have "Suc k \<le> j
               \<and> validateFrom n i (inst # insts)
                   = validateInstruction n (i + Suc k) ((inst # insts) ! Suc k)
               \<and> validateInstruction n (i + Suc k) ((inst # insts) ! Suc k) \<noteq> None"
      using None j' by simp
    then show ?thesis by blast
  qed
qed

text \<open>
  C5, as the code has it. A submission to \<open>POST /\<close> with a context and an instruction
  array in which some instruction's condition lists, in \<open>ifTrue\<close> or \<open>ifFalse\<close>, an index
  outside the array is answered with status 400 and no workflow instance is created. The
  error text names the position of an instruction that has such an index (the first one
  in the array), the list, and the index. Required fields of the variants are not looked
  at when a workflow is submitted.
\<close>

theorem fetch_post_rejects_out_of_bounds_branch:
  assumes "truthy_string (b_context body)"
    and "b_instructions body = Some insts"
    and "i < length insts"
    and "insts ! i = Inr obj"
    and "wo_condition obj = Some cond"
    and "idx \<in> set (ifTrue_list cond) \<union> set (ifFalse_list cond)"
    and "outOfBounds (length insts) idx"
  shows "\<exists>j branch k obj' cond'.
           fetch_post body = BadRequest (out_of_bounds_message j branch k)
           \<and> j \<le> i
           \<and> insts ! j = Inr obj' \<and> wo_condition obj' = Some cond'
           \<and> outOfBounds (length insts) k
           \<and> ((branch = ''ifTrue'' \<and> k \<in> set (ifTrue_list cond'))
              \<or> (branch = ''ifFalse'' \<and> k \<in> set (ifFalse_list cond')))"
proof -
  have ne: "insts \<noteq> []"
    using assms(3) by auto
  have "validateInstruction (length insts) (0 + i) (insts ! i) \<noteq> None"
    using validateInstruction_offending[OF assms(5,6,7)] assms(4) by simp
  from validateFrom_first[OF assms(3) this] obtain j msg where
    j: "j \<le> i" "validateFrom (length insts) 0 insts = Some msg"
       "validateInstruction (length insts) j (insts ! j) = Some msg"
    by auto
  from validateInstruction_SomeD[OF j(3)] obtain obj' cond' branch k where
    d: "insts ! j = Inr obj'" "wo_condition obj' = Some cond'"
       "msg = out_of_bounds_message j branch k" "outOfBounds (length insts) k"
       "(branch = ''ifTrue'' \<and> k \<in> set (ifTrue_list cond'))
        \<or> (branch = ''ifFalse'' \<and> k \<in> set (ifFalse_list cond'))"
    by blast
  have "fetch_post body = BadRequest msg"
    using assms(1,2) ne j(2)
    by (cases insts) (simp_all add: fetch_post_def Let_def)
  then show ?thesis
    using j(1) d by blast
qed

theorem fetch_post_rejects_out_of_bounds_branch_witness:
  "truthy_string (b_context out_of_bounds_body)
   \<and> b_instructions out_of_bounds_body = Some [Inl ''A'', Inr out_of_bounds_object]
   \<and> 1 < length [Inl ''A'', Inr out_of_bounds_object]
   \<and> [Inl ''A'', Inr out_of_bounds_object] ! 1 = Inr out_of_bounds_object
   \<and> wo_condition out_of_bounds_object = Some out_of_bounds_condition
   \<and> 7 \<in> set (ifTrue_list out_of_bounds_condition) \<union> set (ifFalse_list out_of_bounds_condition)
   \<and> outOfBounds (length [Inl ''A'', Inr out_of_bounds_object]) 7
   \<and> fetch_post out_of_bounds_body
       = BadRequest ''Conditional instruction 1: ifTrue index 7 is out of bounds''"
proof -
  let ?insts = "[Inl ''A'', Inr out_of_bounds_object]"
  have a: "truthy_string (b_context out_of_bounds_body)"
    by (simp add: out_of_bounds_body_def body_with_def truthy_string_def)
  have b: "b_instructions out_of_bounds_body = Some ?insts"
    by (simp add: out_of_bounds_body_def body_with_def)
  have c: "1 < length ?insts" by simp
  have d: "?insts ! 1 = Inr out_of_bounds_object" by simp
  have e: "wo_condition out_of_bounds_object = Some out_of_bounds_condition"
    by (simp add: out_of_bounds_object_def)
  have f: "7 \<in> set (ifTrue_list out_of_bounds_condition)
               \<union> set (ifFalse_list out_of_bounds_condition)"
    by (simp add: ifTrue_list_def out_of_bounds_condition_def)
  have g: "outOfBounds (length ?insts) 7"
    by (simp add: outOfBounds_def)
  have r: "fetch_post out_of_bounds_body
             = BadRequest ''Conditional instruction 1: ifTrue index 7 is out of bounds''"
    by code_simp
  from fetch_post_rejects_out_of_bounds_branch[OF a b c d e f g] a b c d e f g r
  show ?thesis by blast
qed

text \<open>
  The claim as the specification words it fails: a submission whose thread instruction
  lacks the required \<open>collectFromSteps\<close> passes every check, and a workflow instance is
  created for it.
\<close>

theorem fetch_post_accepts_missing_required_field_counterexample:
  "\<not> has_required_fields (empty_wire_object\<lparr>wo_type := Some ''thread''\<rparr>)
   \<and> b_instructions malformed_thread_body
       = Some [Inl ''A'', Inr (empty_wire_object\<lparr>wo_type := Some ''thread''\<rparr>)]
   \<and> fetch_post malformed_thread_body = InstanceCreated malformed_thread_body"
  by (simp add: has_required_fields_def empty_wire_object_def malformed_thread_body_def
        body_with_def fetch_post_def truthy_string_def validateInstruction_def)

end
